theory Spec2Isabelle
  imports Main "HOL-Library.Sublist" "HOL-Library.Multiset"
begin

section \<open>Data model\<close>

text \<open>
  The two scripts exchange plain JSON records. A record type below lists the keys
  that the scripts read or write. The documents are taken to be well typed: a
  key that is present holds a value of the type given here, and a field is
  \<open>None\<close> when its key is absent. A JSON null is represented only where the
  scripts accept it: for \<open>description\<close> and \<open>primaryLanguage\<close>, where it is
  treated like the absent key and \<open>None\<close> stands for both, and for \<open>endCursor\<close>.
  Strings are \<open>char list\<close>s, one \<open>char\<close> per character for ASCII text; the few
  non-ASCII glyphs of the report template are written as their UTF-8 bytes.
\<close>

datatype error = HTTPError | KeyError string

text \<open>A GraphQL connection object: \<open>totalCount\<close>, \<open>nodes\<close>, \<open>pageInfo\<close>.\<close>

record page_info =
  hasNextPage :: "bool option"
  endCursor :: "string option option"
    \<comment> \<open>\<open>None\<close>: key absent; \<open>Some None\<close>: JSON null; \<open>Some (Some c)\<close>: a cursor\<close>

record 'a connection =
  totalCount :: "int option"
  nodes :: "'a list option"
  pageInfo :: "page_info option"

type_synonym cursor = "string option"

section \<open>Collector: \<open>scripts/query_ecosystem.py\<close>\<close>

subsection \<open>The remote API\<close>

text \<open>
  The remote service is a state machine: a request carrying a cursor yields either
  a transport failure (\<open>raise_for_status\<close>) or the connection object found under
  \<open>data.viewer.<field>\<close> of the response (\<open>None\<close> when one of these levels
  is absent, which the chained \<open>.get(..., {})\<close> turns into the empty object), and
  a successor state. The network side of the process keeps, besides the remote
  state, the list of the pages received so far.
\<close>

type_synonym ('s, 'a) endpoint = "'s \<Rightarrow> cursor \<Rightarrow> (error + 'a connection option) \<times> 's"

record ('s, 'a) net =
  remote :: 's
  received :: "'a connection option list"

definition graphql_query ::
  "('s, 'a) endpoint \<Rightarrow> cursor \<Rightarrow> ('s, 'a) net \<Rightarrow> (error + 'a connection option) \<times> ('s, 'a) net" where
  "graphql_query ep c w =
     (case ep (remote w) c of
        (Inl e, s') \<Rightarrow> (Inl e, w\<lparr>remote := s'\<rparr>)
      | (Inr d, s') \<Rightarrow> (Inr d, w\<lparr>remote := s', received := received w @ [d]\<rparr>))"

text \<open>\<open>data.get("nodes", [])\<close>\<close>

definition page_nodes :: "'a connection option \<Rightarrow> 'a list" where
  "page_nodes d =
     (case d of None \<Rightarrow> []
      | Some c \<Rightarrow> (case nodes c of None \<Rightarrow> [] | Some ns \<Rightarrow> ns))"

text \<open>\<open>data.get("pageInfo", {}).get("hasNextPage")\<close>, read as a truth value\<close>

definition has_next_page :: "'a connection option \<Rightarrow> bool" where
  "has_next_page d =
     (case d of None \<Rightarrow> False
      | Some c \<Rightarrow> (case pageInfo c of None \<Rightarrow> False
                   | Some p \<Rightarrow> hasNextPage p = Some True))"

text \<open>\<open>data["pageInfo"]["endCursor"]\<close>: a missing key raises\<close>

definition end_cursor :: "'a connection option \<Rightarrow> error + cursor" where
  "end_cursor d =
     (case d of None \<Rightarrow> Inl (KeyError ''pageInfo'')
      | Some c \<Rightarrow> (case pageInfo c of None \<Rightarrow> Inl (KeyError ''pageInfo'')
                   | Some p \<Rightarrow> (case endCursor p of None \<Rightarrow> Inl (KeyError ''endCursor'')
                                | Some cur \<Rightarrow> Inr cur)))"

text \<open>Python's \<open>xs[:n]\<close> for an integer \<open>n\<close>: a negative \<open>n\<close> counts from the end.\<close>

definition slice_to :: "int \<Rightarrow> 'a list \<Rightarrow> 'a list" where
  "slice_to n xs = (if 0 \<le> n then take (nat n) xs else take (length xs - nat (- n)) xs)"

subsection \<open>Pagination loops\<close>

text \<open>
  The loop \<open>while True: ...\<close> of \<open>get_organizations\<close>, \<open>get_followers\<close>,
  \<open>get_following\<close> and \<open>get_gists\<close>. The four functions differ in the query
  text and in the field read from the response, which are part of the endpoint.
  The loop need not end (a service may announce a next page for ever), so the
  result is an option and \<open>None\<close> means that the call does not return.
\<close>

partial_function (option) fetch_all ::
  "('s, 'a) endpoint \<Rightarrow> cursor \<Rightarrow> 'a list \<Rightarrow> ('s, 'a) net \<Rightarrow> ((error + 'a list) \<times> ('s, 'a) net) option" where
  "fetch_all ep cur acc w =
     (case graphql_query ep cur w of
        (Inl e, w') \<Rightarrow> Some (Inl e, w')
      | (Inr d, w') \<Rightarrow>
          (let acc' = acc @ page_nodes d in
           if \<not> has_next_page d then Some (Inr acc', w')
           else (case end_cursor d of
                   Inl e \<Rightarrow> Some (Inl e, w')
                 | Inr cur' \<Rightarrow> fetch_all ep cur' acc' w')))"

definition get_organizations ::
  "('s, 'a) endpoint \<Rightarrow> ('s, 'a) net \<Rightarrow> ((error + 'a list) \<times> ('s, 'a) net) option" where
  "get_organizations ep w = fetch_all ep None [] w"

definition get_followers ::
  "('s, 'a) endpoint \<Rightarrow> ('s, 'a) net \<Rightarrow> ((error + 'a list) \<times> ('s, 'a) net) option" where
  "get_followers ep w = fetch_all ep None [] w"

definition get_following ::
  "('s, 'a) endpoint \<Rightarrow> ('s, 'a) net \<Rightarrow> ((error + 'a list) \<times> ('s, 'a) net) option" where
  "get_following ep w = fetch_all ep None [] w"

definition get_gists ::
  "('s, 'a) endpoint \<Rightarrow> ('s, 'a) net \<Rightarrow> ((error + 'a list) \<times> ('s, 'a) net) option" where
  "get_gists ep w = fetch_all ep None [] w"

text \<open>
  The loop \<open>while len(repos) < limit: ...\<close> of \<open>get_repositories\<close> and
  \<open>get_starred_repos\<close>, followed by \<open>return repos[:limit]\<close>.
\<close>

partial_function (option) fetch_upto ::
  "('s, 'a) endpoint \<Rightarrow> int \<Rightarrow> cursor \<Rightarrow> 'a list \<Rightarrow> ('s, 'a) net \<Rightarrow> ((error + 'a list) \<times> ('s, 'a) net) option" where
  "fetch_upto ep limit cur acc w =
     (if int (length acc) < limit then
        (case graphql_query ep cur w of
           (Inl e, w') \<Rightarrow> Some (Inl e, w')
         | (Inr d, w') \<Rightarrow>
             (let acc' = acc @ page_nodes d in
              if \<not> has_next_page d then Some (Inr acc', w')
              else (case end_cursor d of
                      Inl e \<Rightarrow> Some (Inl e, w')
                    | Inr cur' \<Rightarrow> fetch_upto ep limit cur' acc' w')))
      else Some (Inr acc, w))"

definition get_repositories ::
  "('s, 'a) endpoint \<Rightarrow> int \<Rightarrow> ('s, 'a) net \<Rightarrow> ((error + 'a list) \<times> ('s, 'a) net) option" where
  "get_repositories ep limit w =
     (case fetch_upto ep limit None [] w of
        None \<Rightarrow> None
      | Some (Inl e, w') \<Rightarrow> Some (Inl e, w')
      | Some (Inr repos, w') \<Rightarrow> Some (Inr (slice_to limit repos), w'))"

definition get_starred_repos ::
  "('s, 'a) endpoint \<Rightarrow> int \<Rightarrow> ('s, 'a) net \<Rightarrow> ((error + 'a list) \<times> ('s, 'a) net) option" where
  "get_starred_repos ep limit w =
     (case fetch_upto ep limit None [] w of
        None \<Rightarrow> None
      | Some (Inl e, w') \<Rightarrow> Some (Inl e, w')
      | Some (Inr starred, w') \<Rightarrow> Some (Inr (slice_to limit starred), w'))"

subsection \<open>A service with two pages\<close>

text \<open>
  A concrete service used to run the loops: the request without a cursor is
  answered by a first page that announces a second one, every request with a
  cursor by the last page. The remote state counts the requests served.
\<close>

definition page_a :: "nat connection option" where
  "page_a = Some \<lparr>totalCount = None, nodes = Some [1, 2],
     pageInfo = Some \<lparr>hasNextPage = Some True, endCursor = Some (Some ''Y3Vyc29yOjI='')\<rparr>\<rparr>"

definition page_b :: "nat connection option" where
  "page_b = Some \<lparr>totalCount = None, nodes = Some [3, 4],
     pageInfo = Some \<lparr>hasNextPage = Some False, endCursor = Some None\<rparr>\<rparr>"

definition two_pages :: "(nat, nat) endpoint" where
  "two_pages s cur = (if cur = None then (Inr page_a, s + 1) else (Inr page_b, s + 1))"

definition fresh :: "(nat, nat) net" where
  "fresh = \<lparr>remote = 0, received = []\<rparr>"

subsection \<open>The summary written by \<open>main\<close>\<close>

text \<open>
  The summary record built at the end of \<open>main\<close> from the clock reading
  (\<open>datetime.utcnow().isoformat()\<close>), the login of the user record and the six
  collected lists.
\<close>

record summary =
  timestamp :: "string option"
  user :: "string option"
  counts :: "(string \<times> int) list option"
    \<comment> \<open>the \<open>counts\<close> object as the list of its key/value pairs\<close>

definition main_summary ::
  "string \<Rightarrow> string option \<Rightarrow> 'a list \<Rightarrow> 'b list \<Rightarrow> 'c list \<Rightarrow> 'd list \<Rightarrow> 'e list \<Rightarrow> 'f list \<Rightarrow> summary" where
  "main_summary utcnow user_login orgs repos followers following starred gists =
     \<lparr>timestamp = Some (utcnow @ ''Z''),
      user = user_login,
      counts = Some
        [(''organizations'', int (length orgs)),
         (''repositories'', int (length repos)),
         (''followers'', int (length followers)),
         (''following'', int (length following)),
         (''starred_repos'', int (length starred)),
         (''gists'', int (length gists))]\<rparr>"

section \<open>Reporter: \<open>scripts/generate_reports.py\<close>\<close>

subsection \<open>Snapshot records\<close>

record organization =
  login :: "string option"
  description :: "string option"
  repositories :: "unit connection option"
  membersWithRole :: "unit connection option"

record enterprise =
  name :: "string option"
  slug :: "string option"
  url :: "string option"
  organizations :: "organization connection option"
  members :: "unit connection option"
  viewerIsAdmin :: "bool option"

text \<open>
  A \<open>primaryLanguage\<close> object is kept as the list of its key/value pairs: the
  empty object is false in a condition, and only the key \<open>name\<close> is read.
\<close>

type_synonym language = "(string \<times> string) list"

record repo_owner =
  owner_login :: "string option"

record repository =
  nameWithOwner :: "string option"
  isPrivate :: "bool option"
  isFork :: "bool option"
  isArchived :: "bool option"
  primaryLanguage :: "language option"
  stargazerCount :: "int option"
  updatedAt :: "string option"
  owner :: "repo_owner option"

record user_info =
  viewer_login :: "string option"

text \<open>
  The directory \<open>data/\<close> as the Reporter sees it: each document is absent
  (\<open>None\<close>) or holds a value of the type the Collector writes. The process state
  adds the report file and the lines printed.
\<close>

record data_dir =
  summary_json :: "summary option"
  user_info_json :: "user_info option"
  enterprises_json :: "enterprise list option"
  organizations_json :: "organization list option"
  repositories_json :: "repository list option"

record world =
  data :: data_dir
  README_md :: "string option"
  stdout :: "string list"

subsection \<open>Python primitives\<close>

text \<open>\<open>d.get(k, default)\<close> on an optional field\<close>

definition get_or :: "'a option \<Rightarrow> 'a \<Rightarrow> 'a" where
  "get_or v d = (case v of None \<Rightarrow> d | Some x \<Rightarrow> x)"

text \<open>\<open>x.get(field, {}).get('totalCount', 0)\<close>\<close>

definition total_count :: "'a connection option \<Rightarrow> int" where
  "total_count c = (case c of None \<Rightarrow> 0 | Some conn \<Rightarrow> get_or (totalCount conn) 0)"

text \<open>\<open>x.get(field, {}).get('nodes', [])\<close>\<close>

definition nodes_of :: "'a connection option \<Rightarrow> 'a list" where
  "nodes_of c = (case c of None \<Rightarrow> [] | Some conn \<Rightarrow> get_or (nodes conn) [])"

text \<open>The truth value of an optional boolean, as in \<open>if repo.get('isFork')\<close>.\<close>

definition truthy :: "bool option \<Rightarrow> bool" where
  "truthy b = (b = Some True)"

text \<open>\<open>d[k]\<close> on an object kept as a list of pairs\<close>

definition subscript :: "(string \<times> 'v) list \<Rightarrow> string \<Rightarrow> error + 'v" where
  "subscript d k = (case map_of d k of None \<Rightarrow> Inl (KeyError k) | Some v \<Rightarrow> Inr v)"

text \<open>\<open>str.lower\<close> on ASCII text\<close>

definition lower_char :: "char \<Rightarrow> char" where
  "lower_char c =
     (let n = (of_char c :: nat) in if 65 \<le> n \<and> n \<le> 90 then char_of (n + 32) else c)"

definition lower :: "string \<Rightarrow> string" where
  "lower s = map lower_char s"

text \<open>\<open>str(n)\<close> for an integer, as an f-string prints it\<close>

function str_nat :: "nat \<Rightarrow> string" where
  "str_nat n =
     (if n < 10 then [char_of (48 + n)]
      else str_nat (n div 10) @ [char_of (48 + n mod 10)])"
  by pat_completeness auto
termination
  by (relation "measure id") auto

declare str_nat.simps [simp del]

definition str_int :: "int \<Rightarrow> string" where
  "str_int i = (if i < 0 then CHR ''-'' # str_nat (nat (- i)) else str_nat (nat i))"

text \<open>
  \<open>sorted(xs, key=key, reverse=True)\<close>: Python's sort is stable, also with
  \<open>reverse=True\<close>, so items with equal keys keep their order.
\<close>

definition sorted_reverse :: "('a \<Rightarrow> int) \<Rightarrow> 'a list \<Rightarrow> 'a list" where
  "sorted_reverse key xs = sort_key (\<lambda>x. - key x) xs"

subsection \<open>\<open>map_orgs_to_enterprises\<close>\<close>

record enterprise_ref =
  enterprise_name :: string
  enterprise_slug :: string

text \<open>The key is \<open>org.get('login')\<close>, which is \<open>None\<close> for an organization without login.\<close>

text \<open>The body of the loop over the enterprises.\<close>

definition map_orgs_step ::
  "(string option \<rightharpoonup> enterprise_ref) \<Rightarrow> enterprise \<Rightarrow> (string option \<rightharpoonup> enterprise_ref)" where
  "map_orgs_step mapping ent =
     (let ent_name = get_or (name ent) ''Unknown'';
          ent_slug = get_or (slug ent) ''''
      in foldl (\<lambda>mapping org.
                  mapping(login org \<mapsto> \<lparr>enterprise_name = ent_name, enterprise_slug = ent_slug\<rparr>))
           mapping (nodes_of (organizations ent)))"

definition map_orgs_to_enterprises :: "enterprise list \<Rightarrow> (string option \<rightharpoonup> enterprise_ref)" where
  "map_orgs_to_enterprises enterprises = foldl map_orgs_step Map.empty enterprises"

subsection \<open>\<open>categorize_organizations\<close>\<close>

text \<open>
  The dictionary of categories keeps its insertion order, so it is a list of
  pairs; \<open>categories[k].append(org)\<close> extends the list stored under \<open>k\<close>.
\<close>

definition append_to :: "string \<Rightarrow> 'a \<Rightarrow> (string \<times> 'a list) list \<Rightarrow> (string \<times> 'a list) list" where
  "append_to k x d = map (\<lambda>(k', v). if k' = k then (k', v @ [x]) else (k', v)) d"

definition any_in :: "string list \<Rightarrow> string \<Rightarrow> bool" where
  "any_in xs s = list_ex (\<lambda>x. sublist x s) xs"

definition categorize_step ::
  "(string \<times> organization list) list \<Rightarrow> organization \<Rightarrow> (string \<times> organization list) list" where
  "categorize_step categories org =
     (let lg = lower (get_or (login org) '''') in
      if any_in [''cog'', ''oz'', ''echo''] lg then
        append_to ''Core Cognitive'' org categories
      else if any_in [''zone'', ''rez'', ''rzone''] lg then
        append_to ''Zone Network'' org categories
      else if sublist ''regima'' lg then
        append_to ''RegimA Network'' org categories
      else if prefix ''o9'' lg \<or> prefix ''o6'' lg \<or> sublist ''e9'' lg then
        append_to ''O9 Network'' org categories
      else if sublist ''org-echo'' lg then
        append_to ''Echo Mirrors'' org categories
      else if any_in [''unicorn'', ''cosmic'', ''kaw'', ''hyper'', ''marduk'', ''gnn''] lg then
        append_to ''Special Purpose'' org categories
      else
        append_to ''Other'' org categories)"

definition categorize_organizations :: "organization list \<Rightarrow> (string \<times> organization list) list" where
  "categorize_organizations orgs =
     (let categories =
        [(''Core Cognitive'', []),
         (''Zone Network'', []),
         (''RegimA Network'', []),
         (''O9 Network'', []),
         (''Echo Mirrors'', []),
         (''Special Purpose'', []),
         (''Other'', [])]
      in filter (\<lambda>(k, v). v \<noteq> []) (foldl categorize_step categories orgs))"

subsection \<open>\<open>analyze_repositories\<close>\<close>

text \<open>The keys \<open>public\<close> and \<open>private\<close> are the fields \<open>public_count\<close> and \<open>private_count\<close>.\<close>

record stats =
  public_count :: int
  private_count :: int
  forks :: int
  original :: int
  archived :: int
  languages :: "(string \<times> int) list"
  by_owner :: "(string \<times> int) list"

text \<open>
  \<open>d[k] += 1\<close> on a \<open>defaultdict(int)\<close> that keeps its insertion order: a known
  key is updated in place, a new key is added at the end with count 1.
\<close>

definition incr :: "string \<Rightarrow> (string \<times> int) list \<Rightarrow> (string \<times> int) list" where
  "incr k d =
     (if k \<in> fst ` set d then map (\<lambda>(k', n). if k' = k then (k', n + 1) else (k', n)) d
      else d @ [(k, 1)])"

definition analyze_step :: "stats \<Rightarrow> repository \<Rightarrow> stats" where
  "analyze_step st repo =
     (let st1 = (if truthy (isPrivate repo) then st\<lparr>private_count := private_count st + 1\<rparr>
                 else st\<lparr>public_count := public_count st + 1\<rparr>);
          st2 = (if truthy (isFork repo) then st1\<lparr>forks := forks st1 + 1\<rparr>
                 else st1\<lparr>original := original st1 + 1\<rparr>);
          st3 = (if truthy (isArchived repo) then st2\<lparr>archived := archived st2 + 1\<rparr> else st2);
          st4 = (case primaryLanguage repo of
                   None \<Rightarrow> st3
                 | Some lang \<Rightarrow>
                     if lang \<noteq> [] then
                       st3\<lparr>languages := incr (get_or (map_of lang ''name'') ''Unknown'') (languages st3)\<rparr>
                     else st3);
          owner_name = (case owner repo of None \<Rightarrow> ''Unknown''
                        | Some ow \<Rightarrow> get_or (owner_login ow) ''Unknown'')
      in st4\<lparr>by_owner := incr owner_name (by_owner st4)\<rparr>)"

definition analyze_repositories :: "repository list \<Rightarrow> stats" where
  "analyze_repositories repos =
     foldl analyze_step
       \<lparr>public_count = 0, private_count = 0, forks = 0, original = 0, archived = 0,
        languages = [], by_owner = []\<rparr>
       repos"

subsection \<open>\<open>generate_readme\<close>\<close>

text \<open>The non-ASCII glyphs of the template, as UTF-8 bytes.\<close>

definition glyph_bar_chart :: string where
  "glyph_bar_chart = [CHR 0xF0, CHR 0x9F, CHR 0x93, CHR 0x8A]"

definition glyph_classical_building :: string where
  "glyph_classical_building = [CHR 0xF0, CHR 0x9F, CHR 0x8F, CHR 0x9B, CHR 0xEF, CHR 0xB8, CHR 0x8F]"

definition glyph_check_mark :: string where
  "glyph_check_mark = [CHR 0xE2, CHR 0x9C, CHR 0x85]"

definition glyph_cross_mark :: string where
  "glyph_cross_mark = [CHR 0xE2, CHR 0x9D, CHR 0x8C]"

definition glyph_arrow :: string where
  "glyph_arrow = [CHR 0xE2, CHR 0x86, CHR 0x92]"

definition glyph_office_building :: string where
  "glyph_office_building = [CHR 0xF0, CHR 0x9F, CHR 0x8F, CHR 0xA2]"

definition glyph_laptop :: string where
  "glyph_laptop = [CHR 0xF0, CHR 0x9F, CHR 0x92, CHR 0xBB]"

definition glyph_folder :: string where
  "glyph_folder = [CHR 0xF0, CHR 0x9F, CHR 0x93, CHR 0x81]"

definition glyph_arrows_cycle :: string where
  "glyph_arrows_cycle = [CHR 0xF0, CHR 0x9F, CHR 0x94, CHR 0x84]"

text \<open>
  \<open>if not summary\<close>: the document is absent, or it is the empty object (none of
  its keys is present).
\<close>

definition not_summary :: "summary option \<Rightarrow> bool" where
  "not_summary s =
     (case s of None \<Rightarrow> True
      | Some r \<Rightarrow> timestamp r = None \<and> user r = None \<and> counts r = None)"

text \<open>
  The first f-string (title, \<open>Last Updated\<close>, the Overview table and the heading
  of the Enterprises section). The subscripts \<open>summary['counts'][k]\<close> raise
  \<open>KeyError\<close> for a missing key, in the order of the template.
\<close>

definition overview :: "summary \<Rightarrow> error + string" where
  "overview summary =
     (case counts summary of
        None \<Rightarrow> Inl (KeyError ''counts'')
      | Some cs \<Rightarrow>
     (case subscript cs ''organizations'' of Inl e \<Rightarrow> Inl e | Inr n_organizations \<Rightarrow>
     (case subscript cs ''repositories'' of Inl e \<Rightarrow> Inl e | Inr n_repositories \<Rightarrow>
     (case subscript cs ''followers'' of Inl e \<Rightarrow> Inl e | Inr n_followers \<Rightarrow>
     (case subscript cs ''following'' of Inl e \<Rightarrow> Inl e | Inr n_following \<Rightarrow>
     (case subscript cs ''starred_repos'' of Inl e \<Rightarrow> Inl e | Inr n_starred_repos \<Rightarrow>
     (case subscript cs ''gists'' of Inl e \<Rightarrow> Inl e | Inr n_gists \<Rightarrow>
        Inr (''# DrZone - Ecosystem Dashboard\<newline>''
           @ ''\<newline>''
           @ ''> Automated ecosystem tracking for the drzo GitHub network\<newline>''
           @ ''\<newline>''
           @ ''**Last Updated:** '' @ get_or (timestamp summary) ''Unknown'' @ ''\<newline>''
           @ ''\<newline>''
           @ ''## '' @ glyph_bar_chart @ '' Overview\<newline>''
           @ ''\<newline>''
           @ ''| Metric | Count |\<newline>''
           @ ''|--------|-------|\<newline>''
           @ ''| Enterprises | '' @ str_int (get_or (map_of cs ''enterprises'') 0) @ '' |\<newline>''
           @ ''| Organizations | '' @ str_int n_organizations @ '' |\<newline>''
           @ ''| Repositories | '' @ str_int n_repositories @ '' |\<newline>''
           @ ''| Followers | '' @ str_int n_followers @ '' |\<newline>''
           @ ''| Following | '' @ str_int n_following @ '' |\<newline>''
           @ ''| Starred Repos | '' @ str_int n_starred_repos @ '' |\<newline>''
           @ ''| Gists | '' @ str_int n_gists @ '' |\<newline>''
           @ ''\<newline>''
           @ ''## '' @ glyph_classical_building @ '' Enterprises\<newline>''
           @ ''\<newline>''))))))))"

text \<open>A row of the table of enterprises.\<close>

definition enterprise_row :: "enterprise \<Rightarrow> string" where
  "enterprise_row ent =
     (let ent_name = get_or (name ent) ''Unknown'';
          ent_slug = get_or (slug ent) '''';
          ent_url = get_or (url ent) (''https://github.com/enterprises/'' @ ent_slug);
          org_count = total_count (organizations ent);
          member_count = total_count (members ent);
          is_admin = (if truthy (viewerIsAdmin ent) then glyph_check_mark else glyph_cross_mark)
      in ''| ['' @ ent_name @ '']('' @ ent_url @ '') | `'' @ ent_slug @ ''` | '' @ str_int org_count
         @ '' | '' @ str_int member_count @ '' | '' @ is_admin @ '' |\<newline>'')"

text \<open>\<open>(org.get('description') or 'No description')[:n]\<close>\<close>

definition description_cell :: "nat \<Rightarrow> organization \<Rightarrow> string" where
  "description_cell n org =
     take n (case description org of
               None \<Rightarrow> ''No description''
             | Some d \<Rightarrow> if d = [] then ''No description'' else d)"

definition repo_count :: "organization \<Rightarrow> int" where
  "repo_count org = total_count (repositories org)"

text \<open>A row of an organization table; the descriptions are cut at \<open>n\<close> characters.\<close>

definition organization_row :: "nat \<Rightarrow> organization \<Rightarrow> string" where
  "organization_row n org =
     (let lg = get_or (login org) ''Unknown'';
          member_count = total_count (membersWithRole org)
      in ''| ['' @ lg @ ''](https://github.com/'' @ lg @ '') | '' @ str_int (repo_count org)
         @ '' | '' @ str_int member_count @ '' | '' @ description_cell n org @ '' |\<newline>'')"

text \<open>The table of the organizations of one enterprise.\<close>

definition enterprise_mapping :: "enterprise \<Rightarrow> string" where
  "enterprise_mapping ent =
     (let ent_name = get_or (name ent) ''Unknown'';
          ent_slug = get_or (slug ent) '''';
          ent_orgs = nodes_of (organizations ent)
      in if ent_orgs \<noteq> [] then
           ''#### '' @ ent_name @ '' (`'' @ ent_slug @ ''`)\<newline>\<newline>''
           @ ''| Organization | Repos | Members | Description |\<newline>''
           @ ''|--------------|-------|---------|-------------|\<newline>''
           @ concat (map (organization_row 40) (sorted_reverse repo_count ent_orgs))
           @ ''\<newline>''
         else [])"

definition enterprises_section :: "enterprise list \<Rightarrow> string" where
  "enterprises_section enterprises =
     (if enterprises \<noteq> [] then
        ''| Enterprise | Slug | Organizations | Members | Admin |\<newline>''
        @ ''|------------|------|---------------|---------|-------|\<newline>''
        @ concat (map enterprise_row enterprises)
        @ ''\<newline>### Enterprise '' @ glyph_arrow @ '' Organization Mapping\<newline>\<newline>''
        @ concat (map enterprise_mapping enterprises)
      else ''*No enterprise data available*\<newline>\<newline>'')"

text \<open>
  The organizations listed for one category:
  \<open>sorted(org_list, key=..., reverse=True)[:10]\<close>.
\<close>

definition listed_orgs :: "organization list \<Rightarrow> organization list" where
  "listed_orgs org_list = take 10 (sorted_reverse repo_count org_list)"

definition category_section :: "string \<times> organization list \<Rightarrow> string" where
  "category_section entry =
     (case entry of (category, org_list) \<Rightarrow>
        if org_list \<noteq> [] then
          ''### '' @ category @ ''\<newline>\<newline>''
          @ ''| Organization | Repos | Members | Description |\<newline>''
          @ ''|--------------|-------|---------|-------------|\<newline>''
          @ concat (map (organization_row 50) (listed_orgs org_list))
          @ ''\<newline>''
        else [])"

definition categories_section :: "(string \<times> organization list) list \<Rightarrow> string" where
  "categories_section org_categories =
     ''## '' @ glyph_office_building @ '' Organization Categories\<newline>''
     @ ''\<newline>''
     @ concat (map category_section org_categories)"

definition statistics_section :: "repository list \<Rightarrow> stats \<Rightarrow> string" where
  "statistics_section repos repo_stats =
     ''## '' @ glyph_laptop @ '' Repository Statistics\<newline>''
     @ ''\<newline>''
     @ ''| Metric | Value |\<newline>''
     @ ''|--------|-------|\<newline>''
     @ ''| Total Repositories | '' @ str_int (int (length repos)) @ '' |\<newline>''
     @ ''| Public | '' @ str_int (public_count repo_stats) @ '' |\<newline>''
     @ ''| Private | '' @ str_int (private_count repo_stats) @ '' |\<newline>''
     @ ''| Forks | '' @ str_int (forks repo_stats) @ '' |\<newline>''
     @ ''| Original | '' @ str_int (original repo_stats) @ '' |\<newline>''
     @ ''| Archived | '' @ str_int (archived repo_stats) @ '' |\<newline>''
     @ ''\<newline>''
     @ ''### Top Languages\<newline>''
     @ ''\<newline>''
     @ ''| Language | Count | Percentage |\<newline>''
     @ ''|----------|-------|------------|\<newline>''"

text \<open>
  The rows of the language table. The percentage is computed and printed in
  floating point (\<open>count / total_with_lang * 100\<close>, format \<open>.1f\<close>); the printer
  is a parameter, applied to the count and the total.
\<close>

definition language_rows :: "(int \<Rightarrow> int \<Rightarrow> string) \<Rightarrow> stats \<Rightarrow> string" where
  "language_rows format_pct repo_stats =
     (let total_with_lang = sum_list (map snd (languages repo_stats))
      in concat (map (\<lambda>(lang, count).
                   ''| '' @ lang @ '' | '' @ str_int count @ '' | ''
                   @ format_pct count total_with_lang @ ''% |\<newline>'')
                 (take 10 (sorted_reverse snd (languages repo_stats)))))"

definition recent_row :: "repository \<Rightarrow> string" where
  "recent_row repo =
     (let repo_name = get_or (nameWithOwner repo) ''Unknown'';
          lang = get_or (primaryLanguage repo) [];
          lang_name = (if lang \<noteq> [] then get_or (map_of lang ''name'') ''Unknown'' else ''Unknown'');
          stars = get_or (stargazerCount repo) 0;
          updated = take 10 (get_or (updatedAt repo) '''')
      in ''| ['' @ repo_name @ ''](https://github.com/'' @ repo_name @ '') | '' @ lang_name
         @ '' | '' @ str_int stars @ '' | '' @ updated @ '' |\<newline>'')"

definition recent_section :: "repository list \<Rightarrow> string" where
  "recent_section repos =
     ''\<newline>''
     @ ''### Recently Updated Repositories\<newline>''
     @ ''\<newline>''
     @ ''| Repository | Language | Stars | Updated |\<newline>''
     @ ''|------------|----------|-------|---------|\<newline>''
     @ concat (map recent_row (take 15 repos))"

definition footer :: string where
  "footer =
     ''\<newline>''
     @ ''## '' @ glyph_folder @ '' Data Files\<newline>''
     @ ''\<newline>''
     @ ''The following data files are automatically updated:\<newline>''
     @ ''\<newline>''
     @ ''- [`data/summary.json`](data/summary.json) - Overview statistics\<newline>''
     @ ''- [`data/enterprises.json`](data/enterprises.json) - Enterprise details\<newline>''
     @ ''- [`data/organizations.json`](data/organizations.json) - Organization details\<newline>''
     @ ''- [`data/repositories.json`](data/repositories.json) - Repository listings\<newline>''
     @ ''- [`data/followers.json`](data/followers.json) - Follower information\<newline>''
     @ ''- [`data/following.json`](data/following.json) - Following information\<newline>''
     @ ''- [`data/starred_repos.json`](data/starred_repos.json) - Starred repositories\<newline>''
     @ ''- [`data/gists.json`](data/gists.json) - Gist information\<newline>''
     @ ''\<newline>''
     @ ''## '' @ glyph_arrows_cycle @ '' Update Schedule\<newline>''
     @ ''\<newline>''
     @ ''This dashboard is automatically updated every **Sunday at 00:00 UTC** via GitHub Actions.\<newline>''
     @ ''\<newline>''
     @ ''You can also trigger a manual update from the [Actions tab](../../actions/workflows/update-ecosystem.yml).\<newline>''
     @ ''\<newline>''
     @ ''---\<newline>''
     @ ''\<newline>''
     @ ''*Generated by [DrZone Ecosystem Tracker](https://github.com/cogcities/drzone)*\<newline>''"

text \<open>
  \<open>generate_readme\<close>: the five documents are loaded (\<open>load_json\<close> gives \<open>None\<close>
  for a file that does not exist, and \<open>or []\<close> replaces an absent list by the
  empty one); without a summary the function prints a line and returns;
  otherwise it builds the content, writes \<open>README.md\<close> and prints a line.
\<close>

definition generate_readme :: "(int \<Rightarrow> int \<Rightarrow> string) \<Rightarrow> world \<Rightarrow> error + world" where
  "generate_readme format_pct w =
     (let summary = summary_json (data w);
          user_info = user_info_json (data w);
          enterprises = get_or (enterprises_json (data w)) [];
          orgs = get_or (organizations_json (data w)) [];
          repos = get_or (repositories_json (data w)) []
      in if not_summary summary then
           Inr (w\<lparr>stdout := stdout w @ [''No summary data found, skipping README generation'']\<rparr>)
         else
           (case summary of
              None \<Rightarrow> Inr (w\<lparr>stdout := stdout w @ [''No summary data found, skipping README generation'']\<rparr>)
            | Some summary \<Rightarrow>
           (let org_categories = categorize_organizations orgs;
                repo_stats = analyze_repositories repos;
                enterprise_org_map = map_orgs_to_enterprises enterprises
            in case overview summary of
                 Inl e \<Rightarrow> Inl e
               | Inr head \<Rightarrow>
                   (let content = head
                          @ enterprises_section enterprises
                          @ categories_section org_categories
                          @ statistics_section repos repo_stats
                          @ language_rows format_pct repo_stats
                          @ recent_section repos
                          @ footer
                    in Inr (w\<lparr>README_md := Some content,
                              stdout := stdout w @ [''Generated README.md'']\<rparr>)))))"

text \<open>\<open>main\<close> of the Reporter; \<open>utcnow\<close> is \<open>datetime.utcnow().isoformat()\<close>.\<close>

definition report_main :: "string \<Rightarrow> (int \<Rightarrow> int \<Rightarrow> string) \<Rightarrow> world \<Rightarrow> error + world" where
  "report_main utcnow format_pct w =
     (let w1 = w\<lparr>stdout := stdout w @
                 [replicate 60 CHR ''='',
                  ''DrZo Ecosystem Report Generator'',
                  ''Timestamp: '' @ utcnow @ ''Z'',
                  replicate 60 CHR ''='']\<rparr>
      in case generate_readme format_pct w1 of
           Inl e \<Rightarrow> Inl e
         | Inr w2 \<Rightarrow>
             Inr (w2\<lparr>stdout := stdout w2 @
                    [''\<newline>'' @ replicate 60 CHR ''='',
                     ''Report generation complete!'',
                     replicate 60 CHR ''='']\<rparr>))"

subsection \<open>The categorization as an ordered list of rules\<close>

text \<open>
  The reading of the specification: an ordered list of rules on the lowercased
  login, each with its category; the first rule that matches decides, and a
  login that matches no rule falls into \<open>Other\<close>. The properties below relate
  \<open>categorize_organizations\<close> to it.
\<close>

definition category_rules :: "((string \<Rightarrow> bool) \<times> string) list" where
  "category_rules =
     [(any_in [''cog'', ''oz'', ''echo''], ''Core Cognitive''),
      (any_in [''zone'', ''rez'', ''rzone''], ''Zone Network''),
      (sublist ''regima'', ''RegimA Network''),
      (\<lambda>lg. prefix ''o9'' lg \<or> prefix ''o6'' lg \<or> sublist ''e9'' lg, ''O9 Network''),
      (sublist ''org-echo'', ''Echo Mirrors''),
      (any_in [''unicorn'', ''cosmic'', ''kaw'', ''hyper'', ''marduk'', ''gnn''], ''Special Purpose'')]"

definition first_match :: "string \<Rightarrow> string" where
  "first_match lg =
     (case find (\<lambda>(rule, category). rule lg) category_rules of
        Some (rule, category) \<Rightarrow> category
      | None \<Rightarrow> ''Other'')"

definition category_names :: "string list" where
  "category_names =
     [''Core Cognitive'', ''Zone Network'', ''RegimA Network'', ''O9 Network'',
      ''Echo Mirrors'', ''Special Purpose'', ''Other'']"

definition lowered_login :: "organization \<Rightarrow> string" where
  "lowered_login org = lower (get_or (login org) '''')"

subsection \<open>Sample snapshots\<close>

definition org_cogcities :: organization where
  "org_cogcities =
     \<lparr>login = Some ''cogcities'', description = None,
      repositories = Some \<lparr>totalCount = Some 12, nodes = None, pageInfo = None\<rparr>,
      membersWithRole = None\<rparr>"

definition org_regima_uk :: organization where
  "org_regima_uk =
     \<lparr>login = Some ''regima-uk'', description = None,
      repositories = Some \<lparr>totalCount = Some 3, nodes = None, pageInfo = None\<rparr>,
      membersWithRole = None\<rparr>"

definition org_CogCities :: organization where
  "org_CogCities =
     \<lparr>login = Some ''CogCities'', description = Some ''Mirror'',
      repositories = Some \<lparr>totalCount = Some 12, nodes = None, pageInfo = None\<rparr>,
      membersWithRole = None\<rparr>"

definition org_ozone :: organization where
  "org_ozone =
     \<lparr>login = Some ''ozone'', description = Some '''',
      repositories = Some \<lparr>totalCount = Some 40, nodes = None, pageInfo = None\<rparr>,
      membersWithRole = Some \<lparr>totalCount = Some 2, nodes = None, pageInfo = None\<rparr>\<rparr>"

text \<open>Two enterprises that both list the organization \<open>regima-uk\<close>.\<close>

definition ent_alpha :: enterprise where
  "ent_alpha =
     \<lparr>name = Some ''Alpha'', slug = Some ''alpha'', url = None,
      organizations = Some \<lparr>totalCount = Some 2, nodes = Some [org_cogcities, org_regima_uk],
                            pageInfo = None\<rparr>,
      members = None, viewerIsAdmin = Some True\<rparr>"

definition ent_beta :: enterprise where
  "ent_beta =
     \<lparr>name = Some ''Beta'', slug = Some ''beta'', url = None,
      organizations = Some \<lparr>totalCount = Some 1, nodes = Some [org_regima_uk], pageInfo = None\<rparr>,
      members = None, viewerIsAdmin = None\<rparr>"

text \<open>
  A data directory as the Collector leaves it (with an enterprises document
  added), and the same directory without its summary. The sample printer for
  percentages prints whole percents.
\<close>

definition sample_summary :: summary where
  "sample_summary =
     main_summary ''2024-01-07T00:00:05'' (Some ''drzo'')
       [org_cogcities, org_regima_uk] ([] :: repository list)
       ([] :: unit list) ([] :: unit list) ([] :: unit list) ([] :: unit list)"

definition sample_world :: world where
  "sample_world =
     \<lparr>data = \<lparr>summary_json = Some sample_summary,
              user_info_json = None,
              enterprises_json = Some [ent_alpha, ent_beta],
              organizations_json = Some [org_cogcities, org_regima_uk],
              repositories_json = None\<rparr>,
      README_md = None,
      stdout = []\<rparr>"

definition world_without_summary :: world where
  "world_without_summary = sample_world\<lparr>data := (data sample_world)\<lparr>summary_json := None\<rparr>\<rparr>"

definition whole_pct :: "int \<Rightarrow> int \<Rightarrow> string" where
  "whole_pct cnt tot = str_int (cnt * 100 div tot) @ ''.0''"




section \<open>Properties of the Collector\<close>

lemma graphql_query_received:
  "graphql_query ep c w = (Inr d, w') \<Longrightarrow> received w' = received w @ [d]"
  by (auto simp: graphql_query_def split: prod.splits sum.splits)

text \<open>
  What the unbounded loop returns is its accumulator followed by the nodes of the
  pages received during the call, page after page.
\<close>

lemma fetch_all_pages:
  assumes "fetch_all ep cur acc w = Some y"
  shows "\<forall>r w'. y = (Inr r, w') \<longrightarrow>
           (\<exists>ps. received w' = received w @ ps \<and> r = acc @ concat (map page_nodes ps))"
proof (rule fetch_all.raw_induct[where P = "\<lambda>ep cur acc w y. \<forall>r w'. y = (Inr r, w') \<longrightarrow>
           (\<exists>ps. received w' = received w @ ps \<and> r = acc @ concat (map page_nodes ps))", OF _ assms], goal_cases)
  case (1 f ep cur acc w y)
  show ?case
  proof (intro allI impI)
    fix r w' assume y: "y = (Inr r, w')"
    obtain q w1 where q: "graphql_query ep cur w = (q, w1)" by (cases "graphql_query ep cur w")
    show "\<exists>ps. received w' = received w @ ps \<and> r = acc @ concat (map page_nodes ps)"
    proof (cases q)
      case (Inl e)
      with 1(2) q y show ?thesis by simp
    next
      case (Inr d)
      note rec = graphql_query_received[OF q[unfolded Inr]]
      show ?thesis
      proof (cases "has_next_page d")
        case False
        with 1(2) q y Inr have "r = acc @ page_nodes d" "w' = w1" by (simp_all add: Let_def)
        with rec show ?thesis by (intro exI[of _ "[d]"]) simp
      next
        case True
        show ?thesis
        proof (cases "end_cursor d")
          case (Inl e)
          with 1(2) q y Inr True show ?thesis by (simp add: Let_def)
        next
          case (Inr c')
          with 1(2) q y \<open>q = Inr d\<close> True
          have "f ep c' (acc @ page_nodes d) w1 = Some (Inr r, w')" by (simp add: Let_def)
          from 1(1)[OF this] obtain ps where
            "received w' = received w1 @ ps" "r = (acc @ page_nodes d) @ concat (map page_nodes ps)"
            by blast
          with rec show ?thesis by (intro exI[of _ "d # ps"]) simp
        qed
      qed
    qed
  qed
qed

text \<open>
  The bounded loop: the same, and every request is issued while the accumulator
  is shorter than the limit.
\<close>

lemma fetch_upto_pages:
  assumes "fetch_upto ep L cur acc w = Some y"
  shows "\<forall>r w'. y = (Inr r, w') \<longrightarrow>
     (\<exists>ps. received w' = received w @ ps \<and> r = acc @ concat (map page_nodes ps) \<and>
           (\<forall>k<length ps. int (length (acc @ concat (map page_nodes (take k ps)))) < L))"
proof (rule fetch_upto.raw_induct[where P = "\<lambda>ep L cur acc w y. \<forall>r w'. y = (Inr r, w') \<longrightarrow>
     (\<exists>ps. received w' = received w @ ps \<and> r = acc @ concat (map page_nodes ps) \<and>
           (\<forall>k<length ps. int (length (acc @ concat (map page_nodes (take k ps)))) < L))", OF _ assms], goal_cases)
  case (1 f ep L cur acc w y)
  show ?case
  proof (intro allI impI)
    fix r w' assume y: "y = (Inr r, w')"
    let ?goal = "\<exists>ps. received w' = received w @ ps \<and> r = acc @ concat (map page_nodes ps) \<and>
           (\<forall>k<length ps. int (length (acc @ concat (map page_nodes (take k ps)))) < L)"
    show ?goal
    proof (cases "int (length acc) < L")
      case False
      with 1(2) y have "r = acc" "w' = w" by simp_all
      then show ?thesis by (intro exI[of _ "[]"]) simp
    next
      case lt: True
      obtain q w1 where q: "graphql_query ep cur w = (q, w1)" by (cases "graphql_query ep cur w")
      show ?thesis
      proof (cases q)
        case (Inl e)
        with 1(2) q y lt show ?thesis by simp
      next
        case (Inr d)
        note rec = graphql_query_received[OF q[unfolded Inr]]
        show ?thesis
        proof (cases "has_next_page d")
          case False
          with 1(2) q y Inr lt have "r = acc @ page_nodes d" "w' = w1" by (simp_all add: Let_def)
          with rec lt show ?thesis by (intro exI[of _ "[d]"]) simp
        next
          case True
          show ?thesis
          proof (cases "end_cursor d")
            case (Inl e)
            with 1(2) q y Inr True lt show ?thesis by (simp add: Let_def)
          next
            case (Inr c')
            with 1(2) q y \<open>q = Inr d\<close> True lt
            have "f ep L c' (acc @ page_nodes d) w1 = Some (Inr r, w')" by (simp add: Let_def)
            from 1(1)[OF this] obtain ps where ps:
              "received w' = received w1 @ ps" "r = (acc @ page_nodes d) @ concat (map page_nodes ps)"
              "\<forall>k<length ps. int (length ((acc @ page_nodes d) @ concat (map page_nodes (take k ps)))) < L"
              by blast
            have "\<forall>k<length (d # ps). int (length (acc @ concat (map page_nodes (take k (d # ps))))) < L"
            proof (intro allI impI)
              fix k assume k: "k < length (d # ps)"
              show "int (length (acc @ concat (map page_nodes (take k (d # ps))))) < L"
              proof (cases k)
                case 0
                with lt show ?thesis by simp
              next
                case (Suc j)
                with k ps(3) show ?thesis by simp
              qed
            qed
            with rec ps(1,2) show ?thesis by (intro exI[of _ "d # ps"]) simp
          qed
        qed
      qed
    qed
  qed
qed

lemma fetch_all_extends:
  assumes "fetch_all ep cur acc w = Some y"
  shows "\<forall>r w'. y = (Inr r, w') \<longrightarrow> prefix acc r"
  using fetch_all_pages[OF assms] by auto

text \<open>
  Run from the same state, the bounded loop returns a prefix of what the
  unbounded loop returns.
\<close>

lemma fetch_upto_prefix_fetch_all:
  assumes "fetch_upto ep L cur acc w = Some y"
  shows "\<forall>r w' a w''. y = (Inr r, w') \<longrightarrow>
      fetch_all ep cur acc w = Some (Inr a, w'') \<longrightarrow> prefix r a"
proof (rule fetch_upto.raw_induct[where P = "\<lambda>ep L cur acc w y. \<forall>r w' a w''. y = (Inr r, w') \<longrightarrow>
      fetch_all ep cur acc w = Some (Inr a, w'') \<longrightarrow> prefix r a", OF _ assms], goal_cases)
  case (1 f ep L cur acc w y)
  show ?case
  proof (intro allI impI)
    fix r w' a w'' assume y: "y = (Inr r, w')" and fa: "fetch_all ep cur acc w = Some (Inr a, w'')"
    show "prefix r a"
    proof (cases "int (length acc) < L")
      case False
      with 1(2) y have "r = acc" by simp
      with fetch_all_extends[OF fa] show ?thesis by simp
    next
      case lt: True
      obtain q w1 where q: "graphql_query ep cur w = (q, w1)" by (cases "graphql_query ep cur w")
      show ?thesis
      proof (cases q)
        case (Inl e)
        with 1(2) q y lt show ?thesis by simp
      next
        case (Inr d)
        show ?thesis
        proof (cases "has_next_page d")
          case False
          with 1(2) q y Inr lt have "r = acc @ page_nodes d" by (simp add: Let_def)
          moreover from fa q Inr False have "a = acc @ page_nodes d"
            by (subst (asm) fetch_all.simps) (simp add: Let_def)
          ultimately show ?thesis by simp
        next
          case True
          show ?thesis
          proof (cases "end_cursor d")
            case (Inl e)
            with 1(2) q y Inr True lt show ?thesis by (simp add: Let_def)
          next
            case (Inr c')
            with 1(2) q y \<open>q = Inr d\<close> True lt
            have "f ep L c' (acc @ page_nodes d) w1 = Some (Inr r, w')" by (simp add: Let_def)
            moreover from fa q Inr \<open>q = Inr d\<close> True
            have "fetch_all ep c' (acc @ page_nodes d) w1 = Some (Inr a, w'')"
              by (subst (asm) fetch_all.simps) (simp add: Let_def)
            ultimately show ?thesis using 1(1) by blast
          qed
        qed
      qed
    qed
  qed
qed

text \<open>
  The slice \<open>[:limit]\<close> applied to the result of the bounded loop: it keeps the
  first \<open>limit\<close> items of the concatenated pages (for a negative limit no request
  is issued, and the slice of the empty list is empty).
\<close>

lemma limited_result:
  assumes "fetch_upto ep L None [] w = Some (Inr r0, w')"
  shows "\<exists>ps. received w' = received w @ ps
      \<and> (\<forall>k<length ps. int (length (concat (map page_nodes (take k ps)))) < L)
      \<and> slice_to L r0 = take (nat L) (concat (map page_nodes ps))
      \<and> (\<forall>a w''. fetch_all ep None [] w = Some (Inr a, w'') \<longrightarrow> prefix (slice_to L r0) a)"
proof -
  from fetch_upto_pages[OF assms] obtain ps where ps:
    "received w' = received w @ ps" "r0 = concat (map page_nodes ps)"
    "\<forall>k<length ps. int (length (concat (map page_nodes (take k ps)))) < L"
    by auto
  have sl: "slice_to L r0 = take (nat L) r0"
  proof (cases "0 \<le> L")
    case True then show ?thesis by (simp add: slice_to_def)
  next
    case False
    have "ps = []"
    proof (rule ccontr)
      assume "ps \<noteq> []"
      then have "0 < length ps" by simp
      with ps(3) have "int (length (concat (map page_nodes (take 0 ps)))) < L" by blast
      with False show False by simp
    qed
    with ps(2) False show ?thesis by (simp add: slice_to_def)
  qed
  have pre: "\<forall>a w''. fetch_all ep None [] w = Some (Inr a, w'') \<longrightarrow> prefix (slice_to L r0) a"
  proof (intro allI impI)
    fix a w'' assume "fetch_all ep None [] w = Some (Inr a, w'')"
    with fetch_upto_prefix_fetch_all[OF assms] have "prefix r0 a" by blast
    moreover have "prefix (take (nat L) r0) r0" by (rule take_is_prefix)
    ultimately show "prefix (slice_to L r0) a" unfolding sl by (rule prefix_order.trans[rotated])
  qed
  from ps sl pre show ?thesis by blast
qed








text \<open>
  Claim C2, as amended. For the four fetches without a limit (organizations,
  followers, following, gists) the returned list is the concatenation, in the
  order received, of the nodes of all pages fetched, so its length is the sum of
  the page sizes. For the two fetches with a limit \<open>L\<close> (repositories, starred
  repositories) the returned list is the first \<open>L\<close> items of that concatenation;
  it is the whole concatenation, with the length the sum of the page sizes,
  when the pages fetched hold at most \<open>L\<close> items.
\<close>

theorem paginated_fetch_concat:
  "(get_organizations ep w = Some (Inr r, w') \<or> get_followers ep w = Some (Inr r, w')
      \<or> get_following ep w = Some (Inr r, w') \<or> get_gists ep w = Some (Inr r, w')
    \<longrightarrow> (\<exists>ps. received w' = received w @ ps
          \<and> r = concat (map page_nodes ps)
          \<and> length r = sum_list (map (\<lambda>p. length (page_nodes p)) ps)))
   \<and> (get_repositories ep L w = Some (Inr r, w') \<or> get_starred_repos ep L w = Some (Inr r, w')
    \<longrightarrow> (\<exists>ps. received w' = received w @ ps
          \<and> r = take (nat L) (concat (map page_nodes ps))
          \<and> (int (sum_list (map (\<lambda>p. length (page_nodes p)) ps)) \<le> L
               \<longrightarrow> r = concat (map page_nodes ps)
                 \<and> length r = sum_list (map (\<lambda>p. length (page_nodes p)) ps))))"
proof (intro conjI impI)
  assume "get_organizations ep w = Some (Inr r, w') \<or> get_followers ep w = Some (Inr r, w')
      \<or> get_following ep w = Some (Inr r, w') \<or> get_gists ep w = Some (Inr r, w')"
  then have "fetch_all ep None [] w = Some (Inr r, w')"
    by (auto simp: get_organizations_def get_followers_def get_following_def get_gists_def)
  from fetch_all_pages[OF this] obtain ps where
    "received w' = received w @ ps" "r = concat (map page_nodes ps)" by auto
  then show "\<exists>ps. received w' = received w @ ps
          \<and> r = concat (map page_nodes ps)
          \<and> length r = sum_list (map (\<lambda>p. length (page_nodes p)) ps)"
    by (auto simp: length_concat comp_def)
next
  assume "get_repositories ep L w = Some (Inr r, w') \<or> get_starred_repos ep L w = Some (Inr r, w')"
  then obtain r0 where r0: "fetch_upto ep L None [] w = Some (Inr r0, w')" "r = slice_to L r0"
    by (auto simp: get_repositories_def get_starred_repos_def split: option.splits sum.splits prod.splits)
  from limited_result[OF r0(1)] obtain ps where ps:
    "received w' = received w @ ps"
    "r = take (nat L) (concat (map page_nodes ps))"
    unfolding r0(2) by blast
  have "length (concat (map page_nodes ps)) = sum_list (map (\<lambda>p. length (page_nodes p)) ps)"
    by (simp add: length_concat comp_def)
  with ps show "\<exists>ps. received w' = received w @ ps
          \<and> r = take (nat L) (concat (map page_nodes ps))
          \<and> (int (sum_list (map (\<lambda>p. length (page_nodes p)) ps)) \<le> L
               \<longrightarrow> r = concat (map page_nodes ps)
                 \<and> length r = sum_list (map (\<lambda>p. length (page_nodes p)) ps))"
    by (intro exI[of _ ps]) auto
qed

text \<open>Both parts at the two-page service, the limited fetch with limit 10.\<close>

theorem paginated_fetch_concat_witness:
  "get_organizations two_pages fresh = Some (Inr [1, 2, 3, 4], \<lparr>remote = 2, received = [page_a, page_b]\<rparr>)
   \<and> get_repositories two_pages 10 fresh = Some (Inr [1, 2, 3, 4], \<lparr>remote = 2, received = [page_a, page_b]\<rparr>)
   \<and> (\<exists>ps. received \<lparr>remote = 2::nat, received = [page_a, page_b]\<rparr> = received fresh @ ps
          \<and> [1, 2, 3, 4] = concat (map page_nodes ps)
          \<and> length [1, 2, 3, 4::nat] = sum_list (map (\<lambda>p. length (page_nodes p)) ps))
   \<and> (\<exists>ps. received \<lparr>remote = 2::nat, received = [page_a, page_b]\<rparr> = received fresh @ ps
          \<and> [1, 2, 3, 4] = take (nat 10) (concat (map page_nodes ps))
          \<and> (int (sum_list (map (\<lambda>p. length (page_nodes p)) ps)) \<le> 10
               \<longrightarrow> [1, 2, 3, 4] = concat (map page_nodes ps)
                 \<and> length [1, 2, 3, 4::nat] = sum_list (map (\<lambda>p. length (page_nodes p)) ps)))"
proof -
  have h1: "get_organizations two_pages fresh = Some (Inr [1, 2, 3, 4], \<lparr>remote = 2, received = [page_a, page_b]\<rparr>)"
    by (simp add: get_organizations_def fetch_all.simps graphql_query_def two_pages_def fresh_def
        page_a_def page_b_def page_nodes_def has_next_page_def end_cursor_def Let_def)
  have h2: "get_repositories two_pages 10 fresh = Some (Inr [1, 2, 3, 4], \<lparr>remote = 2, received = [page_a, page_b]\<rparr>)"
    by (simp add: get_repositories_def fetch_upto.simps graphql_query_def two_pages_def fresh_def
        page_a_def page_b_def page_nodes_def has_next_page_def end_cursor_def slice_to_def Let_def)
  note t = paginated_fetch_concat[of two_pages fresh "[1, 2, 3, 4]" "\<lparr>remote = 2, received = [page_a, page_b]\<rparr>" 10]
  from t h1 have c1: "\<exists>ps. received \<lparr>remote = 2::nat, received = [page_a, page_b]\<rparr> = received fresh @ ps
          \<and> [1, 2, 3, 4] = concat (map page_nodes ps)
          \<and> length [1, 2, 3, 4::nat] = sum_list (map (\<lambda>p. length (page_nodes p)) ps)"
    by blast
  from t h2 have c2: "\<exists>ps. received \<lparr>remote = 2::nat, received = [page_a, page_b]\<rparr> = received fresh @ ps
          \<and> [1, 2, 3, 4] = take (nat 10) (concat (map page_nodes ps))
          \<and> (int (sum_list (map (\<lambda>p. length (page_nodes p)) ps)) \<le> 10
               \<longrightarrow> [1, 2, 3, 4] = concat (map page_nodes ps)
                 \<and> length [1, 2, 3, 4::nat] = sum_list (map (\<lambda>p. length (page_nodes p)) ps))"
    by blast
  from h1 h2 c1 c2 show ?thesis by (intro conjI)
qed

text \<open>
  Claim C2 as stated fails for a limited fetch: with limit 3 the two-page service
  delivers four items in two pages and \<open>get_repositories\<close> returns three.
\<close>

theorem truncated_fetch_shorter_than_pages:
  "get_repositories two_pages 3 fresh = Some (Inr [1, 2, 3], \<lparr>remote = 2, received = [page_a, page_b]\<rparr>)
   \<and> length [1, 2, 3::nat] \<noteq> sum_list (map (\<lambda>p. length (page_nodes p)) [page_a, page_b])
   \<and> [1, 2, 3] \<noteq> concat (map page_nodes [page_a, page_b])"
  by (simp add: get_repositories_def fetch_upto.simps graphql_query_def two_pages_def fresh_def
        page_a_def page_b_def page_nodes_def has_next_page_def end_cursor_def slice_to_def Let_def)

section \<open>Properties of the Reporter\<close>

subsection \<open>Categorization\<close>

text \<open>
  One pass of the loop body appends the organization to the category that the
  first matching rule gives for its lowercased login.
\<close>

lemma categorize_step_first_match:
  "categorize_step categories org = append_to (first_match (lowered_login org)) org categories"
  by (simp add: categorize_step_def first_match_def category_rules_def lowered_login_def Let_def)

lemma first_match_in_names: "first_match lg \<in> set category_names"
  by (simp add: first_match_def category_rules_def category_names_def)

lemma foldl_append_to:
  "foldl (\<lambda>d x. append_to (f x) x d) d xs = map (\<lambda>(k, v). (k, v @ filter (\<lambda>x. f x = k) xs)) d"
proof (induction xs arbitrary: d)
  case Nil
  then show ?case by (simp add: case_prod_unfold)
next
  case (Cons x xs)
  have "foldl (\<lambda>d x. append_to (f x) x d) d (x # xs)
      = foldl (\<lambda>d x. append_to (f x) x d) (append_to (f x) x d) xs" by simp
  also have "\<dots> = map (\<lambda>(k, v). (k, v @ filter (\<lambda>x. f x = k) xs)) (append_to (f x) x d)"
    by (rule Cons.IH)
  also have "\<dots> = map (\<lambda>(k, v). (k, v @ filter (\<lambda>x. f x = k) (x # xs))) d"
    by (auto simp: append_to_def)
  finally show ?case .
qed

lemma categorize_fold:
  "foldl categorize_step d orgs = map (\<lambda>(k, v). (k, v @ filter (\<lambda>x. first_match (lowered_login x) = k) orgs)) d"
proof -
  have eq: "categorize_step = (\<lambda>d x. append_to (first_match (lowered_login x)) x d)"
    by (intro ext) (rule categorize_step_first_match)
  show ?thesis unfolding eq by (rule foldl_append_to)
qed

lemma categorize_organizations_buckets:
  "categorize_organizations orgs =
     filter (\<lambda>(k, v). v \<noteq> [])
       (map (\<lambda>k. (k, filter (\<lambda>x. first_match (lowered_login x) = k) orgs)) category_names)"
  by (simp add: categorize_organizations_def categorize_fold category_names_def)

lemma concat_nonempty: "concat (map snd (filter (\<lambda>(k, v). v \<noteq> []) d)) = concat (map snd d)"
  by (induction d) auto

lemma mset_buckets:
  "distinct ks \<Longrightarrow>
   mset (concat (map (\<lambda>k. filter (\<lambda>x. f x = k) xs) ks)) = filter_mset (\<lambda>x. f x \<in> set ks) (mset xs)"
proof (induction ks)
  case Nil
  then show ?case by simp
next
  case (Cons k ks)
  then have "k \<notin> set ks" by simp
  have "filter_mset (\<lambda>x. f x = k) (mset xs) + filter_mset (\<lambda>x. f x \<in> set ks) (mset xs)
      = filter_mset (\<lambda>x. f x \<in> set (k # ks)) (mset xs)"
    using \<open>k \<notin> set ks\<close> by (induction xs) auto
  with Cons show ?case by simp
qed


lemma map_of_buckets:
  "map_of (filter (\<lambda>(k, v). v \<noteq> []) (map (\<lambda>k. (k, g k)) ks)) c =
     (if c \<in> set ks \<and> g c \<noteq> [] then Some (g c) else None)"
  by (induction ks) auto

lemma set_buckets:
  "set (filter (\<lambda>(k, v). v \<noteq> []) (map (\<lambda>k. (k, g k)) ks)) = {(k, g k) | k. k \<in> set ks \<and> g k \<noteq> []}"
  by (induction ks) auto

lemma keys_buckets:
  "map fst (filter (\<lambda>(k, v). v \<noteq> []) (map (\<lambda>k. (k, g k)) ks)) = filter (\<lambda>k. g k \<noteq> []) ks"
  by (induction ks) auto

lemma bucket_empty_outside_names:
  "c \<notin> set category_names \<Longrightarrow> filter (\<lambda>x. first_match (lowered_login x) = c) orgs = []"
  using first_match_in_names by (auto simp: filter_empty_conv)

lemma distinct_category_names: "distinct category_names"
  by (simp add: category_names_def)

lemma categorize_organizations_map_of:
  "map_of (categorize_organizations orgs) c =
     (if filter (\<lambda>x. first_match (lowered_login x) = c) orgs = [] then None
      else Some (filter (\<lambda>x. first_match (lowered_login x) = c) orgs))"
  using bucket_empty_outside_names[of c orgs]
  by (auto simp: categorize_organizations_buckets map_of_buckets)

lemma categorize_organizations_set:
  "(c, b) \<in> set (categorize_organizations orgs) \<longleftrightarrow>
     b = filter (\<lambda>x. first_match (lowered_login x) = c) orgs \<and> b \<noteq> []"
  using bucket_empty_outside_names[of c orgs]
  by (auto simp: categorize_organizations_buckets set_buckets)

lemma categorize_organizations_mset:
  "mset (concat (map snd (categorize_organizations orgs))) = mset orgs"
proof -
  have "concat (map snd (categorize_organizations orgs))
      = concat (map (\<lambda>k. filter (\<lambda>x. first_match (lowered_login x) = k) orgs) category_names)"
    by (simp add: categorize_organizations_buckets concat_nonempty comp_def)
  then show ?thesis
    by (simp add: mset_buckets[OF distinct_category_names] first_match_in_names)
qed

text \<open>
  Claim C3. \<open>categorize_organizations\<close> is a total function on organization lists.
  In the returned dictionary the list stored under a category \<open>c\<close> consists of
  the organizations whose lowercased login has \<open>c\<close> as the category of its first
  matching rule (\<open>Other\<close> when no rule matches), in input order, and a category
  without organization has no entry. The keys are distinct names of the fixed
  set; the lists together hold every organization of the input once; every
  organization of the input is in the list of exactly one category; and two
  organizations with the same lowercased login are in the same lists.
\<close>

theorem categorization_total:
  "(\<forall>c. map_of (categorize_organizations orgs) c =
         (if filter (\<lambda>org. first_match (lowered_login org) = c) orgs = [] then None
          else Some (filter (\<lambda>org. first_match (lowered_login org) = c) orgs)))
   \<and> distinct (map fst (categorize_organizations orgs))
   \<and> set (map fst (categorize_organizations orgs)) \<subseteq> set category_names
   \<and> mset (concat (map snd (categorize_organizations orgs))) = mset orgs
   \<and> (\<forall>org \<in> set orgs. \<exists>!c. \<exists>b. (c, b) \<in> set (categorize_organizations orgs) \<and> org \<in> set b)
   \<and> (\<forall>org1 org2 c b. lowered_login org1 = lowered_login org2 \<longrightarrow>
         org1 \<in> set orgs \<longrightarrow> org2 \<in> set orgs \<longrightarrow>
         (c, b) \<in> set (categorize_organizations orgs) \<longrightarrow>
         (org1 \<in> set b \<longleftrightarrow> org2 \<in> set b))"
proof (intro conjI)
  show "\<forall>c. map_of (categorize_organizations orgs) c =
         (if filter (\<lambda>org. first_match (lowered_login org) = c) orgs = [] then None
          else Some (filter (\<lambda>org. first_match (lowered_login org) = c) orgs))"
    by (simp add: categorize_organizations_map_of)
  show "distinct (map fst (categorize_organizations orgs))"
    by (simp add: categorize_organizations_buckets keys_buckets distinct_category_names)
  show "set (map fst (categorize_organizations orgs)) \<subseteq> set category_names"
    by (auto simp: categorize_organizations_buckets keys_buckets)
  show "mset (concat (map snd (categorize_organizations orgs))) = mset orgs"
    by (rule categorize_organizations_mset)
  show "\<forall>org \<in> set orgs. \<exists>!c. \<exists>b. (c, b) \<in> set (categorize_organizations orgs) \<and> org \<in> set b"
  proof
    fix org assume org: "org \<in> set orgs"
    show "\<exists>!c. \<exists>b. (c, b) \<in> set (categorize_organizations orgs) \<and> org \<in> set b"
    proof (rule ex1I[of _ "first_match (lowered_login org)"])
      from org show "\<exists>b. (first_match (lowered_login org), b) \<in> set (categorize_organizations orgs) \<and> org \<in> set b"
        by (auto simp: categorize_organizations_set filter_empty_conv)
    next
      fix c assume "\<exists>b. (c, b) \<in> set (categorize_organizations orgs) \<and> org \<in> set b"
      then show "c = first_match (lowered_login org)"
        by (auto simp: categorize_organizations_set)
    qed
  qed
  show "\<forall>org1 org2 c b. lowered_login org1 = lowered_login org2 \<longrightarrow>
         org1 \<in> set orgs \<longrightarrow> org2 \<in> set orgs \<longrightarrow>
         (c, b) \<in> set (categorize_organizations orgs) \<longrightarrow>
         (org1 \<in> set b \<longleftrightarrow> org2 \<in> set b)"
    by (auto simp: categorize_organizations_set)
qed

text \<open>
  The scenario of the specification, with a third organization whose login
  differs from the first in case only.
\<close>

lemma lowered_login_samples:
  "lowered_login org_cogcities = ''cogcities''"
  "lowered_login org_regima_uk = ''regima-uk''"
  "lowered_login org_CogCities = ''cogcities''"
  by code_simp+

lemma categorize_samples:
  "categorize_organizations [org_cogcities, org_regima_uk, org_CogCities] =
     [(''Core Cognitive'', [org_cogcities, org_CogCities]), (''RegimA Network'', [org_regima_uk])]"
  by (simp add: categorize_organizations_def categorize_step_first_match lowered_login_samples
        first_match_def category_rules_def any_in_def append_to_def sublist_code(3))

theorem categorization_total_witness:
  "categorize_organizations [org_cogcities, org_regima_uk, org_CogCities] =
     [(''Core Cognitive'', [org_cogcities, org_CogCities]), (''RegimA Network'', [org_regima_uk])]
   \<and> org_regima_uk \<in> set [org_cogcities, org_regima_uk, org_CogCities]
   \<and> (\<exists>!c. \<exists>b. (c, b) \<in> set (categorize_organizations [org_cogcities, org_regima_uk, org_CogCities])
                \<and> org_regima_uk \<in> set b)
   \<and> lowered_login org_cogcities = lowered_login org_CogCities
   \<and> (org_cogcities \<in> set [org_cogcities, org_CogCities] \<longleftrightarrow> org_CogCities \<in> set [org_cogcities, org_CogCities])"
proof -
  let ?orgs = "[org_cogcities, org_regima_uk, org_CogCities]"
  note t = categorization_total[of ?orgs]
  have e: "categorize_organizations ?orgs =
     [(''Core Cognitive'', [org_cogcities, org_CogCities]), (''RegimA Network'', [org_regima_uk])]"
    by (rule categorize_samples)
  have m: "org_regima_uk \<in> set ?orgs" "org_cogcities \<in> set ?orgs" "org_CogCities \<in> set ?orgs" by simp_all
  have l: "lowered_login org_cogcities = lowered_login org_CogCities"
    by (simp add: lowered_login_samples)
  have b: "(''Core Cognitive'', [org_cogcities, org_CogCities]) \<in> set (categorize_organizations ?orgs)"
    unfolding e by simp
  from t m(1) have u: "\<exists>!c. \<exists>b. (c, b) \<in> set (categorize_organizations ?orgs) \<and> org_regima_uk \<in> set b"
    by blast
  from t l m(2,3) b
  have s: "org_cogcities \<in> set [org_cogcities, org_CogCities] \<longleftrightarrow> org_CogCities \<in> set [org_cogcities, org_CogCities]"
    by blast
  from e m(1) u l s show ?thesis by (intro conjI)
qed

lemma sublist_echo: "sublist ''org-echo'' lg \<Longrightarrow> sublist ''echo'' lg"
proof -
  assume a: "sublist ''org-echo'' lg"
  have "sublist ''echo'' ''org-echo''"
    by (rule sublist_appendI[of "''echo''" "''org-''" "[]", simplified])
  then show ?thesis using a by (rule sublist_order.order.trans)
qed

lemma first_match_not_echo_mirrors: "first_match lg \<noteq> ''Echo Mirrors''"
  using sublist_echo[of lg]
  by (auto simp: first_match_def category_rules_def any_in_def)

text \<open>
  Claim C9. No organization is ever assigned to \<open>Echo Mirrors\<close>: the loop leaves
  the list stored under that key as it was, for every organization list, and the
  returned dictionary has no such key. A login that contains \<open>org-echo\<close> contains
  \<open>echo\<close> and is taken by the rule of \<open>Core Cognitive\<close>, which is tested first.
\<close>

theorem echo_mirrors_never_assigned:
  "map_of (foldl categorize_step categories orgs) ''Echo Mirrors'' = map_of categories ''Echo Mirrors''
   \<and> ''Echo Mirrors'' \<notin> fst ` set (categorize_organizations orgs)
   \<and> map_of (categorize_organizations orgs) ''Echo Mirrors'' = None"
proof (intro conjI)
  have empty: "filter (\<lambda>x. first_match (lowered_login x) = ''Echo Mirrors'') orgs = []"
    by (simp add: filter_empty_conv first_match_not_echo_mirrors)
  have "map_of (map (\<lambda>(k, v). (k, v @ filter (\<lambda>x. first_match (lowered_login x) = k) orgs)) categories) ''Echo Mirrors''
      = map_of categories ''Echo Mirrors''"
    using empty by (induction categories) auto
  then show "map_of (foldl categorize_step categories orgs) ''Echo Mirrors'' = map_of categories ''Echo Mirrors''"
    by (simp only: categorize_fold)
  show none: "map_of (categorize_organizations orgs) ''Echo Mirrors'' = None"
    using empty by (simp add: categorize_organizations_map_of)
  show "''Echo Mirrors'' \<notin> fst ` set (categorize_organizations orgs)"
    using empty by (auto simp: categorize_organizations_set)
qed

subsection \<open>Repository statistics\<close>

lemma incr_hit_keys:
  "map fst (map (\<lambda>(k', n). if k' = k then (k', n + 1) else (k', n::int)) d) = map fst d"
  by (induction d) (auto split: prod.splits)

lemma incr_miss: "k \<notin> fst ` set d \<Longrightarrow> map (\<lambda>(k', n). if k' = k then (k', n + 1) else (k', n::int)) d = d"
  by (induction d) auto

lemma incr_hit_sum:
  "k \<in> fst ` set d \<Longrightarrow> distinct (map fst d) \<Longrightarrow>
   sum_list (map snd (map (\<lambda>(k', n). if k' = k then (k', n + 1) else (k', n::int)) d))
      = sum_list (map snd d) + 1"
proof (induction d)
  case Nil
  then show ?case by simp
next
  case (Cons a d)
  show ?case
  proof (cases "fst a = k")
    case hit: True
    with Cons.prems have "k \<notin> fst ` set d" by auto
    from incr_miss[OF this] hit show ?thesis by (cases a) simp
  next
    case miss: False
    with Cons.prems have "k \<in> fst ` set d" "distinct (map fst d)" by auto
    from Cons.IH[OF this] miss show ?thesis by (cases a) simp
  qed
qed

lemma incr_sum:
  "distinct (map fst d) \<Longrightarrow> sum_list (map snd (incr k d)) = sum_list (map snd d) + 1"
  using incr_hit_sum[of k d] by (simp add: incr_def)

lemma incr_keys: "distinct (map fst d) \<Longrightarrow> distinct (map fst (incr k d))"
  using incr_hit_keys[of k d] by (auto simp: incr_def simp del: map_map)


lemma analyze_step_public:
  "public_count (analyze_step st repo) + private_count (analyze_step st repo)
     = public_count st + private_count st + 1"
  by (simp add: analyze_step_def Let_def split: option.splits)

lemma analyze_step_forks:
  "forks (analyze_step st repo) + original (analyze_step st repo) = forks st + original st + 1"
  by (simp add: analyze_step_def Let_def split: option.splits)

lemma analyze_step_languages:
  "languages (analyze_step st repo) =
     (case primaryLanguage repo of
        None \<Rightarrow> languages st
      | Some lang \<Rightarrow> if lang \<noteq> [] then incr (get_or (map_of lang ''name'') ''Unknown'') (languages st)
                     else languages st)"
  by (simp add: analyze_step_def Let_def split: option.splits)

lemma analyze_step_sum:
  "distinct (map fst (languages st)) \<Longrightarrow>
   sum_list (map snd (languages (analyze_step st repo)))
     = sum_list (map snd (languages st))
       + (if primaryLanguage repo = None \<or> primaryLanguage repo = Some [] then 0 else 1)"
  by (simp add: analyze_step_languages incr_sum split: option.splits)

lemma analyze_step_distinct:
  "distinct (map fst (languages st)) \<Longrightarrow> distinct (map fst (languages (analyze_step st repo)))"
  by (simp add: analyze_step_languages incr_keys split: option.splits)

lemma analyze_fold_counts:
  "distinct (map fst (languages st)) \<Longrightarrow>
     public_count (foldl analyze_step st repos) + private_count (foldl analyze_step st repos)
           = public_count st + private_count st + int (length repos)
       \<and> forks (foldl analyze_step st repos) + original (foldl analyze_step st repos)
           = forks st + original st + int (length repos)
       \<and> sum_list (map snd (languages (foldl analyze_step st repos)))
           = sum_list (map snd (languages st))
             + int (length repos)
             - int (length (filter (\<lambda>repo. primaryLanguage repo = None \<or> primaryLanguage repo = Some []) repos))"
proof (induction repos arbitrary: st)
  case Nil
  then show ?case by simp
next
  case (Cons repo repos)
  note d = analyze_step_distinct[OF Cons.prems, of repo]
  from Cons.IH[OF d] analyze_step_public[of st repo] analyze_step_forks[of st repo]
       analyze_step_sum[OF Cons.prems, of repo]
  show ?case by simp
qed

text \<open>
  Claim C4. For every repository list the statistics of \<open>analyze_repositories\<close>
  satisfy: public + private = number of repositories; forks + original = number
  of repositories; the counts of the language histogram sum to at most the
  number of repositories, and to exactly that number minus the number of
  repositories without a primary language (absent, null or an empty object).
\<close>

theorem repository_statistics_consistent:
  "public_count (analyze_repositories repos) + private_count (analyze_repositories repos)
     = int (length repos)
   \<and> forks (analyze_repositories repos) + original (analyze_repositories repos)
     = int (length repos)
   \<and> sum_list (map snd (languages (analyze_repositories repos))) \<le> int (length repos)
   \<and> sum_list (map snd (languages (analyze_repositories repos)))
     = int (length repos)
       - int (length (filter (\<lambda>repo. primaryLanguage repo = None \<or> primaryLanguage repo = Some []) repos))"
  using analyze_fold_counts[of "\<lparr>public_count = 0, private_count = 0, forks = 0, original = 0,
     archived = 0, languages = [], by_owner = []\<rparr>" repos]
  by (simp add: analyze_repositories_def)

subsection \<open>Enterprise mapping\<close>

lemma inner_fold_lookup:
  "foldl (\<lambda>mapping org. mapping(login org \<mapsto> r)) m orgs k =
     (if k \<in> login ` set orgs then Some r else m k)"
  by (induction orgs arbitrary: m) auto

lemma find_snoc:
  "find P (xs @ [x]) = (case find P xs of Some y \<Rightarrow> Some y | None \<Rightarrow> if P x then Some x else None)"
  by (induction xs) auto

lemma map_orgs_step_lookup:
  "map_orgs_step m ent k =
     (if k \<in> login ` set (nodes_of (organizations ent))
      then Some \<lparr>enterprise_name = get_or (name ent) ''Unknown'', enterprise_slug = get_or (slug ent) ''''\<rparr>
      else m k)"
  unfolding map_orgs_step_def Let_def by (rule inner_fold_lookup)

lemma outer_fold_lookup:
  "foldl map_orgs_step m ents k =
     (case find (\<lambda>ent. k \<in> login ` set (nodes_of (organizations ent))) (rev ents) of
        Some ent \<Rightarrow> Some \<lparr>enterprise_name = get_or (name ent) ''Unknown'',
                           enterprise_slug = get_or (slug ent) ''''\<rparr>
      | None \<Rightarrow> m k)"
proof (induction ents arbitrary: m)
  case Nil
  then show ?case by simp
next
  case (Cons e es)
  have "foldl map_orgs_step m (e # es) k = foldl map_orgs_step (map_orgs_step m e) es k"
    by simp
  also have "\<dots> =
     (case find (\<lambda>ent. k \<in> login ` set (nodes_of (organizations ent))) (rev es) of
        Some ent \<Rightarrow> Some \<lparr>enterprise_name = get_or (name ent) ''Unknown'',
                           enterprise_slug = get_or (slug ent) ''''\<rparr>
      | None \<Rightarrow> map_orgs_step m e k)"
    by (rule Cons.IH)
  also have "\<dots> =
     (case find (\<lambda>ent. k \<in> login ` set (nodes_of (organizations ent))) (rev (e # es)) of
        Some ent \<Rightarrow> Some \<lparr>enterprise_name = get_or (name ent) ''Unknown'',
                           enterprise_slug = get_or (slug ent) ''''\<rparr>
      | None \<Rightarrow> m k)"
    by (simp add: find_snoc map_orgs_step_lookup split: option.splits)
  finally show ?case .
qed

text \<open>
  Claim C8. The mapping built by \<open>map_orgs_to_enterprises\<close> has, for a key \<open>k\<close>,
  an entry exactly when some enterprise lists an organization with login \<open>k\<close>,
  and the entry holds the name and slug (with their defaults) of the last
  enterprise of the input that lists such an organization: a later enterprise
  overwrites the entry of an earlier one, without any check.
\<close>

theorem enterprise_mapping_last_wins:
  "map_orgs_to_enterprises enterprises k =
     map_option (\<lambda>ent. \<lparr>enterprise_name = get_or (name ent) ''Unknown'',
                          enterprise_slug = get_or (slug ent) ''''\<rparr>)
       (find (\<lambda>ent. k \<in> login ` set (nodes_of (organizations ent))) (rev enterprises))"
  by (simp add: map_orgs_to_enterprises_def outer_fold_lookup split: option.splits)

text \<open>
  The organization \<open>regima-uk\<close> is listed by both sample enterprises: the later
  one is recorded. An unknown login has no entry.
\<close>

theorem enterprise_mapping_last_wins_witness:
  "map_orgs_to_enterprises [ent_alpha, ent_beta] (Some ''regima-uk'')
     = Some \<lparr>enterprise_name = ''Beta'', enterprise_slug = ''beta''\<rparr>
   \<and> map_orgs_to_enterprises [ent_alpha, ent_beta] (Some ''cogcities'')
     = Some \<lparr>enterprise_name = ''Alpha'', enterprise_slug = ''alpha''\<rparr>
   \<and> map_orgs_to_enterprises [ent_alpha, ent_beta] (Some ''drzo'') = None"
proof -
  have a: "nodes_of (organizations ent_alpha) = [org_cogcities, org_regima_uk]"
    and b: "nodes_of (organizations ent_beta) = [org_regima_uk]"
    by (simp_all add: ent_alpha_def ent_beta_def nodes_of_def get_or_def)
  have l: "login org_cogcities = Some ''cogcities''" "login org_regima_uk = Some ''regima-uk''"
    by (simp_all add: org_cogcities_def org_regima_uk_def)
  have n: "get_or (name ent_alpha) ''Unknown'' = ''Alpha''" "get_or (slug ent_alpha) '''' = ''alpha''"
    "get_or (name ent_beta) ''Unknown'' = ''Beta''" "get_or (slug ent_beta) '''' = ''beta''"
    by (simp_all add: ent_alpha_def ent_beta_def get_or_def)
  show ?thesis
    unfolding enterprise_mapping_last_wins
    by (simp add: a b l n)
qed

subsection \<open>Organization tables\<close>

lemma sorted_reverse_mset: "mset (sorted_reverse key xs) = mset xs"
  by (simp add: sorted_reverse_def)

lemma sorted_reverse_descending:
  "sorted_wrt (\<lambda>a b. key a \<ge> key b) (sorted_reverse key xs)"
proof -
  have "sorted (map (\<lambda>x. - key x) (sort_key (\<lambda>x. - key x) xs))" by (rule sorted_sort_key)
  then show ?thesis by (simp add: sorted_reverse_def sorted_map)
qed

lemma sorted_reverse_stable:
  "filter (\<lambda>x. key x = n) (sorted_reverse key xs) = filter (\<lambda>x. key x = n) xs"
  using sort_key_stable[of "\<lambda>x. - key x" "- n" xs] by (simp add: sorted_reverse_def)

lemma listed_orgs_top:
  "\<exists>s. listed_orgs org_list = take 10 s
       \<and> mset s = mset org_list
       \<and> sorted_wrt (\<lambda>a b. repo_count a \<ge> repo_count b) s
       \<and> (\<forall>n. filter (\<lambda>org. repo_count org = n) s = filter (\<lambda>org. repo_count org = n) org_list)"
  by (rule exI[of _ "sorted_reverse repo_count org_list"])
     (simp add: listed_orgs_def sorted_reverse_mset sorted_reverse_descending sorted_reverse_stable)

text \<open>
  Claim C7. For each category of the returned dictionary, the section rendered
  for it lists the rows of \<open>listed_orgs\<close>: the first ten items of a rearrangement
  of the organizations of the category that is ordered by repository count
  (\<open>repositories.totalCount\<close>, 0 when absent), largest first, and in which
  organizations with equal counts keep the order of the input.
\<close>

theorem category_table_top_ten:
  assumes "(category, org_list) \<in> set (categorize_organizations orgs)"
  shows "category_section (category, org_list) =
           ''### '' @ category @ ''\<newline>\<newline>''
           @ ''| Organization | Repos | Members | Description |\<newline>''
           @ ''|--------------|-------|---------|-------------|\<newline>''
           @ concat (map (organization_row 50) (listed_orgs org_list))
           @ ''\<newline>''
         \<and> org_list = filter (\<lambda>org. first_match (lowered_login org) = category) orgs
         \<and> length (listed_orgs org_list) = min 10 (length org_list)
         \<and> (\<exists>s. listed_orgs org_list = take 10 s
               \<and> mset s = mset org_list
               \<and> sorted_wrt (\<lambda>a b. repo_count a \<ge> repo_count b) s
               \<and> (\<forall>n. filter (\<lambda>org. repo_count org = n) s
                        = filter (\<lambda>org. repo_count org = n) org_list))"
proof -
  from assms have b: "org_list = filter (\<lambda>org. first_match (lowered_login org) = category) orgs"
    and ne: "org_list \<noteq> []"
    by (auto simp: categorize_organizations_set)
  from ne have sec: "category_section (category, org_list) =
           ''### '' @ category @ ''\<newline>\<newline>''
           @ ''| Organization | Repos | Members | Description |\<newline>''
           @ ''|--------------|-------|---------|-------------|\<newline>''
           @ concat (map (organization_row 50) (listed_orgs org_list))
           @ ''\<newline>''"
    by (simp add: category_section_def)
  have len: "length (listed_orgs org_list) = min 10 (length org_list)"
    by (simp add: listed_orgs_def sorted_reverse_def)
  from sec b len listed_orgs_top[of org_list] show ?thesis by (intro conjI)
qed

text \<open>
  Four organizations, three of them in \<open>Core Cognitive\<close>: the one with 40
  repositories comes first, the two with 12 follow in input order.
\<close>

lemma listed_orgs_sample:
  "listed_orgs [org_cogcities, org_CogCities, org_ozone] = [org_ozone, org_cogcities, org_CogCities]"
  by (simp add: listed_orgs_def sorted_reverse_def repo_count_def total_count_def get_or_def
        org_cogcities_def org_CogCities_def org_ozone_def)

lemma lowered_login_ozone: "lowered_login org_ozone = ''ozone''"
  by code_simp

lemma categorize_sample_four:
  "categorize_organizations [org_cogcities, org_regima_uk, org_CogCities, org_ozone] =
     [(''Core Cognitive'', [org_cogcities, org_CogCities, org_ozone]), (''RegimA Network'', [org_regima_uk])]"
  by (simp add: categorize_organizations_def categorize_step_first_match lowered_login_samples
        lowered_login_ozone first_match_def category_rules_def any_in_def append_to_def sublist_code(3))

theorem category_table_top_ten_witness:
  "(''Core Cognitive'', [org_cogcities, org_CogCities, org_ozone])
      \<in> set (categorize_organizations [org_cogcities, org_regima_uk, org_CogCities, org_ozone])
   \<and> listed_orgs [org_cogcities, org_CogCities, org_ozone] = [org_ozone, org_cogcities, org_CogCities]
   \<and> category_section (''Core Cognitive'', [org_cogcities, org_CogCities, org_ozone]) =
           ''### '' @ ''Core Cognitive'' @ ''\<newline>\<newline>''
           @ ''| Organization | Repos | Members | Description |\<newline>''
           @ ''|--------------|-------|---------|-------------|\<newline>''
           @ concat (map (organization_row 50) [org_ozone, org_cogcities, org_CogCities])
           @ ''\<newline>''
   \<and> (\<exists>s. [org_ozone, org_cogcities, org_CogCities] = take 10 s
         \<and> mset s = mset [org_cogcities, org_CogCities, org_ozone]
         \<and> sorted_wrt (\<lambda>a b. repo_count a \<ge> repo_count b) s
         \<and> (\<forall>n. filter (\<lambda>org. repo_count org = n) s
                  = filter (\<lambda>org. repo_count org = n) [org_cogcities, org_CogCities, org_ozone]))"
proof -
  have h: "(''Core Cognitive'', [org_cogcities, org_CogCities, org_ozone])
      \<in> set (categorize_organizations [org_cogcities, org_regima_uk, org_CogCities, org_ozone])"
    by (simp add: categorize_sample_four)
  note t = category_table_top_ten[OF h]
  have l: "listed_orgs [org_cogcities, org_CogCities, org_ozone] = [org_ozone, org_cogcities, org_CogCities]"
    by (rule listed_orgs_sample)
  from t have c1: "category_section (''Core Cognitive'', [org_cogcities, org_CogCities, org_ozone]) =
           ''### '' @ ''Core Cognitive'' @ ''\<newline>\<newline>''
           @ ''| Organization | Repos | Members | Description |\<newline>''
           @ ''|--------------|-------|---------|-------------|\<newline>''
           @ concat (map (organization_row 50) [org_ozone, org_cogcities, org_CogCities])
           @ ''\<newline>''"
    unfolding l by (rule conjunct1)
  from t have c2: "\<exists>s. [org_ozone, org_cogcities, org_CogCities] = take 10 s
         \<and> mset s = mset [org_cogcities, org_CogCities, org_ozone]
         \<and> sorted_wrt (\<lambda>a b. repo_count a \<ge> repo_count b) s
         \<and> (\<forall>n. filter (\<lambda>org. repo_count org = n) s
                  = filter (\<lambda>org. repo_count org = n) [org_cogcities, org_CogCities, org_ozone])"
    unfolding l by blast
  from h l c1 c2 show ?thesis by (intro conjI)
qed

subsection \<open>Report generation\<close>

lemma generate_readme_skip:
  "not_summary (summary_json (data w)) \<Longrightarrow>
   generate_readme format_pct w =
     Inr (w\<lparr>stdout := stdout w @ [''No summary data found, skipping README generation'']\<rparr>)"
  by (simp add: generate_readme_def Let_def)

lemma generate_readme_write:
  "summary_json (data w) = Some s \<Longrightarrow> \<not> not_summary (Some s) \<Longrightarrow>
   generate_readme format_pct w =
     (case overview s of
        Inl e \<Rightarrow> Inl e
      | Inr head \<Rightarrow>
          Inr (w\<lparr>README_md := Some (head
                   @ enterprises_section (get_or (enterprises_json (data w)) [])
                   @ categories_section (categorize_organizations (get_or (organizations_json (data w)) []))
                   @ statistics_section (get_or (repositories_json (data w)) [])
                       (analyze_repositories (get_or (repositories_json (data w)) []))
                   @ language_rows format_pct (analyze_repositories (get_or (repositories_json (data w)) []))
                   @ recent_section (get_or (repositories_json (data w)) [])
                   @ footer),
                 stdout := stdout w @ [''Generated README.md'']\<rparr>))"
  by (simp add: generate_readme_def Let_def split: sum.splits)

text \<open>
  Claim C6. When the summary document is absent, \<open>generate_readme\<close> returns
  normally, its only effect being the printed line
  \<open>No summary data found, skipping README generation\<close>: the report file is not
  written and nothing derived from the other documents is used. A whole run of
  the Reporter ends normally as well, with the report file and the data
  directory as they were.
\<close>

theorem summary_absent_skips:
  assumes "summary_json (data w) = None"
  shows "generate_readme format_pct w =
           Inr (w\<lparr>stdout := stdout w @ [''No summary data found, skipping README generation'']\<rparr>)
         \<and> (\<exists>w'. report_main utcnow format_pct w = Inr w'
                \<and> README_md w' = README_md w
                \<and> data w' = data w
                \<and> ''No summary data found, skipping README generation'' \<in> set (stdout w'))"
proof -
  from assms have n: "not_summary (summary_json (data w))" by (simp add: not_summary_def)
  have g: "generate_readme format_pct w =
           Inr (w\<lparr>stdout := stdout w @ [''No summary data found, skipping README generation'']\<rparr>)"
    by (rule generate_readme_skip[OF n])
  from assms have n1: "\<And>out. not_summary (summary_json (data (w\<lparr>stdout := out\<rparr>)))"
    by (simp add: not_summary_def)
  have "\<exists>w'. report_main utcnow format_pct w = Inr w'
                \<and> README_md w' = README_md w
                \<and> data w' = data w
                \<and> ''No summary data found, skipping README generation'' \<in> set (stdout w')"
    by (simp add: report_main_def Let_def generate_readme_skip[OF n1])
  with g show ?thesis by (rule conjI)
qed

theorem summary_absent_skips_witness:
  "summary_json (data world_without_summary) = None
   \<and> generate_readme whole_pct world_without_summary =
        Inr (world_without_summary\<lparr>stdout := stdout world_without_summary
               @ [''No summary data found, skipping README generation'']\<rparr>)
   \<and> (\<exists>w'. report_main ''2024-01-08T10:00:00'' whole_pct world_without_summary = Inr w'
          \<and> README_md w' = README_md world_without_summary
          \<and> data w' = data world_without_summary
          \<and> ''No summary data found, skipping README generation'' \<in> set (stdout w'))"
proof -
  have h: "summary_json (data world_without_summary) = None"
    by (simp add: world_without_summary_def)
  from summary_absent_skips[OF h, of whole_pct "''2024-01-08T10:00:00''"] h
  show ?thesis by simp
qed






lemma overview_header:
  assumes "overview s = Inr head"
  shows "\<exists>cs rest. counts s = Some cs \<and> head =
           ''# DrZone - Ecosystem Dashboard\<newline>''
           @ ''\<newline>''
           @ ''> Automated ecosystem tracking for the drzo GitHub network\<newline>''
           @ ''\<newline>''
           @ ''**Last Updated:** '' @ get_or (timestamp s) ''Unknown'' @ ''\<newline>''
           @ ''\<newline>''
           @ ''## '' @ glyph_bar_chart @ '' Overview\<newline>''
           @ ''\<newline>''
           @ ''| Metric | Count |\<newline>''
           @ ''|--------|-------|\<newline>''
           @ ''| Enterprises | '' @ str_int (get_or (map_of cs ''enterprises'') 0) @ '' |\<newline>''
           @ rest"
  using assms unfolding overview_def
  by (auto split: option.splits sum.splits)


lemma main_summary_fields:
  "timestamp (main_summary utcnow user_login orgs repos followers following starred gists) = Some (utcnow @ ''Z'')"
  "\<not> not_summary (Some (main_summary utcnow user_login orgs repos followers following starred gists))"
  "map_of (the (counts (main_summary utcnow user_login orgs repos followers following starred gists))) ''enterprises'' = None"
  by (simp_all add: main_summary_def not_summary_def)


lemma str_int_zero: "str_int 0 = ''0''"
  by code_simp





lemma generate_readme_written:
  "summary_json (data w) = Some s \<Longrightarrow> \<not> not_summary (Some s) \<Longrightarrow> overview s = Inr head \<Longrightarrow>
   generate_readme format_pct w =
     Inr (w\<lparr>README_md := Some (head
                   @ enterprises_section (get_or (enterprises_json (data w)) [])
                   @ categories_section (categorize_organizations (get_or (organizations_json (data w)) []))
                   @ statistics_section (get_or (repositories_json (data w)) [])
                       (analyze_repositories (get_or (repositories_json (data w)) []))
                   @ language_rows format_pct (analyze_repositories (get_or (repositories_json (data w)) []))
                   @ recent_section (get_or (repositories_json (data w)) [])
                   @ footer),
                 stdout := stdout w @ [''Generated README.md'']\<rparr>)"
  by (simp add: generate_readme_write)

lemma overview_main_summary_head:
  "\<exists>rest. overview (main_summary utcnow user_login orgs repos followers following starred gists) =
     Inr (''# DrZone - Ecosystem Dashboard\<newline>''
           @ ''\<newline>''
           @ ''> Automated ecosystem tracking for the drzo GitHub network\<newline>''
           @ ''\<newline>''
           @ ''**Last Updated:** '' @ utcnow @ ''Z'' @ ''\<newline>''
           @ ''\<newline>''
           @ ''## '' @ glyph_bar_chart @ '' Overview\<newline>''
           @ ''\<newline>''
           @ ''| Metric | Count |\<newline>''
           @ ''|--------|-------|\<newline>''
           @ ''| Enterprises | 0 |\<newline>''
           @ rest
           @ ''## '' @ glyph_classical_building @ '' Enterprises\<newline>''
           @ ''\<newline>'')"
  by (simp add: overview_def main_summary_def subscript_def get_or_def str_int_zero)

text \<open>
  Claim C10. In a report the row \<open>Enterprises\<close> of the Overview table shows
  \<open>summary['counts'].get('enterprises', 0)\<close>: the count stored in the summary
  document, 0 when that key is absent; the enterprises document has no part in
  it. The summary written by the Collector holds the six counts and no key
  \<open>enterprises\<close>, so a report generated from it is written and shows
  \<open>| Enterprises | 0 |\<close>, whatever the enterprises document holds, while the
  tables of the enterprises are rendered further down in the same report.
\<close>

theorem enterprises_row_is_summary_count:
  "(summary_json (data w) = Some s \<longrightarrow> counts s = Some cs \<longrightarrow>
      (case generate_readme format_pct w of
         Inl e \<Rightarrow> True
       | Inr w' \<Rightarrow>
           \<exists>rest. README_md w' =
             Some (''# DrZone - Ecosystem Dashboard\<newline>''
                   @ ''\<newline>''
                   @ ''> Automated ecosystem tracking for the drzo GitHub network\<newline>''
                   @ ''\<newline>''
                   @ ''**Last Updated:** '' @ get_or (timestamp s) ''Unknown'' @ ''\<newline>''
                   @ ''\<newline>''
                   @ ''## '' @ glyph_bar_chart @ '' Overview\<newline>''
                   @ ''\<newline>''
                   @ ''| Metric | Count |\<newline>''
                   @ ''|--------|-------|\<newline>''
                   @ ''| Enterprises | '' @ str_int (get_or (map_of cs ''enterprises'') 0) @ '' |\<newline>''
                   @ rest)))
   \<and> (summary_json (data w) =
        Some (main_summary utcnow user_login orgs repos followers following starred gists) \<longrightarrow>
      (\<exists>w' rows rest. generate_readme format_pct w = Inr w' \<and> README_md w' =
             Some (''# DrZone - Ecosystem Dashboard\<newline>''
                   @ ''\<newline>''
                   @ ''> Automated ecosystem tracking for the drzo GitHub network\<newline>''
                   @ ''\<newline>''
                   @ ''**Last Updated:** '' @ utcnow @ ''Z'' @ ''\<newline>''
                   @ ''\<newline>''
                   @ ''## '' @ glyph_bar_chart @ '' Overview\<newline>''
                   @ ''\<newline>''
                   @ ''| Metric | Count |\<newline>''
                   @ ''|--------|-------|\<newline>''
                   @ ''| Enterprises | 0 |\<newline>''
                   @ rows
                   @ ''## '' @ glyph_classical_building @ '' Enterprises\<newline>''
                   @ ''\<newline>''
                   @ enterprises_section (get_or (enterprises_json (data w)) [])
                   @ rest)))"
proof (intro conjI impI)
  assume s: "summary_json (data w) = Some s" and cs: "counts s = Some cs"
  from cs have n: "\<not> not_summary (Some s)" by (simp add: not_summary_def)
  show "case generate_readme format_pct w of
         Inl e \<Rightarrow> True
       | Inr w' \<Rightarrow>
           \<exists>rest. README_md w' =
             Some (''# DrZone - Ecosystem Dashboard\<newline>''
                   @ ''\<newline>''
                   @ ''> Automated ecosystem tracking for the drzo GitHub network\<newline>''
                   @ ''\<newline>''
                   @ ''**Last Updated:** '' @ get_or (timestamp s) ''Unknown'' @ ''\<newline>''
                   @ ''\<newline>''
                   @ ''## '' @ glyph_bar_chart @ '' Overview\<newline>''
                   @ ''\<newline>''
                   @ ''| Metric | Count |\<newline>''
                   @ ''|--------|-------|\<newline>''
                   @ ''| Enterprises | '' @ str_int (get_or (map_of cs ''enterprises'') 0) @ '' |\<newline>''
                   @ rest)"
  proof (cases "overview s")
    case (Inl e)
    with generate_readme_write[OF s n, of format_pct] show ?thesis by simp
  next
    case (Inr head)
    from overview_header[OF Inr] cs obtain rest where head:
      "head = ''# DrZone - Ecosystem Dashboard\<newline>''
           @ ''\<newline>''
           @ ''> Automated ecosystem tracking for the drzo GitHub network\<newline>''
           @ ''\<newline>''
           @ ''**Last Updated:** '' @ get_or (timestamp s) ''Unknown'' @ ''\<newline>''
           @ ''\<newline>''
           @ ''## '' @ glyph_bar_chart @ '' Overview\<newline>''
           @ ''\<newline>''
           @ ''| Metric | Count |\<newline>''
           @ ''|--------|-------|\<newline>''
           @ ''| Enterprises | '' @ str_int (get_or (map_of cs ''enterprises'') 0) @ '' |\<newline>''
           @ rest"
      by auto
    show ?thesis
      unfolding generate_readme_written[OF s n Inr] head by simp
  qed
next
  assume s: "summary_json (data w) =
        Some (main_summary utcnow user_login orgs repos followers following starred gists)"
  from overview_main_summary_head[of utcnow user_login orgs repos followers following starred gists]
  obtain rows where head:
    "overview (main_summary utcnow user_login orgs repos followers following starred gists) =
     Inr (''# DrZone - Ecosystem Dashboard\<newline>''
           @ ''\<newline>''
           @ ''> Automated ecosystem tracking for the drzo GitHub network\<newline>''
           @ ''\<newline>''
           @ ''**Last Updated:** '' @ utcnow @ ''Z'' @ ''\<newline>''
           @ ''\<newline>''
           @ ''## '' @ glyph_bar_chart @ '' Overview\<newline>''
           @ ''\<newline>''
           @ ''| Metric | Count |\<newline>''
           @ ''|--------|-------|\<newline>''
           @ ''| Enterprises | 0 |\<newline>''
           @ rows
           @ ''## '' @ glyph_classical_building @ '' Enterprises\<newline>''
           @ ''\<newline>'')"
    by blast
  let ?rest = "categories_section (categorize_organizations (get_or (organizations_json (data w)) []))
                   @ statistics_section (get_or (repositories_json (data w)) [])
                       (analyze_repositories (get_or (repositories_json (data w)) []))
                   @ language_rows format_pct (analyze_repositories (get_or (repositories_json (data w)) []))
                   @ recent_section (get_or (repositories_json (data w)) [])
                   @ footer"
  obtain w' where g: "generate_readme format_pct w = Inr w'"
    and r: "README_md w' = Some (
           (''# DrZone - Ecosystem Dashboard\<newline>''
           @ ''\<newline>''
           @ ''> Automated ecosystem tracking for the drzo GitHub network\<newline>''
           @ ''\<newline>''
           @ ''**Last Updated:** '' @ utcnow @ ''Z'' @ ''\<newline>''
           @ ''\<newline>''
           @ ''## '' @ glyph_bar_chart @ '' Overview\<newline>''
           @ ''\<newline>''
           @ ''| Metric | Count |\<newline>''
           @ ''|--------|-------|\<newline>''
           @ ''| Enterprises | 0 |\<newline>''
           @ rows
           @ ''## '' @ glyph_classical_building @ '' Enterprises\<newline>''
           @ ''\<newline>'')
           @ enterprises_section (get_or (enterprises_json (data w)) [])
           @ ?rest)"
    using generate_readme_written[OF s main_summary_fields(2) head, of format_pct] by simp
  from r have r': "README_md w' =
             Some (''# DrZone - Ecosystem Dashboard\<newline>''
                   @ ''\<newline>''
                   @ ''> Automated ecosystem tracking for the drzo GitHub network\<newline>''
                   @ ''\<newline>''
                   @ ''**Last Updated:** '' @ utcnow @ ''Z'' @ ''\<newline>''
                   @ ''\<newline>''
                   @ ''## '' @ glyph_bar_chart @ '' Overview\<newline>''
                   @ ''\<newline>''
                   @ ''| Metric | Count |\<newline>''
                   @ ''|--------|-------|\<newline>''
                   @ ''| Enterprises | 0 |\<newline>''
                   @ rows
                   @ ''## '' @ glyph_classical_building @ '' Enterprises\<newline>''
                   @ ''\<newline>''
                   @ enterprises_section (get_or (enterprises_json (data w)) [])
                   @ ?rest)"
    by (simp only: append_assoc)
  from g r' show "\<exists>w' rows rest. generate_readme format_pct w = Inr w' \<and> README_md w' =
             Some (''# DrZone - Ecosystem Dashboard\<newline>''
                   @ ''\<newline>''
                   @ ''> Automated ecosystem tracking for the drzo GitHub network\<newline>''
                   @ ''\<newline>''
                   @ ''**Last Updated:** '' @ utcnow @ ''Z'' @ ''\<newline>''
                   @ ''\<newline>''
                   @ ''## '' @ glyph_bar_chart @ '' Overview\<newline>''
                   @ ''\<newline>''
                   @ ''| Metric | Count |\<newline>''
                   @ ''|--------|-------|\<newline>''
                   @ ''| Enterprises | 0 |\<newline>''
                   @ rows
                   @ ''## '' @ glyph_classical_building @ '' Enterprises\<newline>''
                   @ ''\<newline>''
                   @ enterprises_section (get_or (enterprises_json (data w)) [])
                   @ rest)"
    by blast
qed

text \<open>The sample directory: two enterprises on file, and the row shows 0.\<close>

theorem enterprises_row_is_summary_count_witness:
  "summary_json (data sample_world) =
     Some (main_summary ''2024-01-07T00:00:05'' (Some ''drzo'')
            [org_cogcities, org_regima_uk] ([] :: repository list)
            ([] :: unit list) ([] :: unit list) ([] :: unit list) ([] :: unit list))
   \<and> counts (main_summary ''2024-01-07T00:00:05'' (Some ''drzo'')
            [org_cogcities, org_regima_uk] ([] :: repository list)
            ([] :: unit list) ([] :: unit list) ([] :: unit list) ([] :: unit list)) =
       Some [(''organizations'', 2), (''repositories'', 0), (''followers'', 0),
             (''following'', 0), (''starred_repos'', 0), (''gists'', 0)]
   \<and> enterprises_json (data sample_world) = Some [ent_alpha, ent_beta]
   \<and> (case generate_readme whole_pct sample_world of
         Inl e \<Rightarrow> True
       | Inr w' \<Rightarrow>
           \<exists>rest. README_md w' =
             Some (''# DrZone - Ecosystem Dashboard\<newline>''
                   @ ''\<newline>''
                   @ ''> Automated ecosystem tracking for the drzo GitHub network\<newline>''
                   @ ''\<newline>''
                   @ ''**Last Updated:** ''
                   @ get_or (timestamp (main_summary ''2024-01-07T00:00:05'' (Some ''drzo'')
                        [org_cogcities, org_regima_uk] ([] :: repository list)
                        ([] :: unit list) ([] :: unit list) ([] :: unit list) ([] :: unit list))) ''Unknown''
                   @ ''\<newline>''
                   @ ''\<newline>''
                   @ ''## '' @ glyph_bar_chart @ '' Overview\<newline>''
                   @ ''\<newline>''
                   @ ''| Metric | Count |\<newline>''
                   @ ''|--------|-------|\<newline>''
                   @ ''| Enterprises | ''
                   @ str_int (get_or (map_of [(''organizations'', 2), (''repositories'', 0), (''followers'', 0),
                        (''following'', 0), (''starred_repos'', 0), (''gists'', 0)] ''enterprises'') 0)
                   @ '' |\<newline>''
                   @ rest))
   \<and> (\<exists>w' rows rest. generate_readme whole_pct sample_world = Inr w' \<and> README_md w' =
             Some (''# DrZone - Ecosystem Dashboard\<newline>''
                   @ ''\<newline>''
                   @ ''> Automated ecosystem tracking for the drzo GitHub network\<newline>''
                   @ ''\<newline>''
                   @ ''**Last Updated:** '' @ ''2024-01-07T00:00:05'' @ ''Z'' @ ''\<newline>''
                   @ ''\<newline>''
                   @ ''## '' @ glyph_bar_chart @ '' Overview\<newline>''
                   @ ''\<newline>''
                   @ ''| Metric | Count |\<newline>''
                   @ ''|--------|-------|\<newline>''
                   @ ''| Enterprises | 0 |\<newline>''
                   @ rows
                   @ ''## '' @ glyph_classical_building @ '' Enterprises\<newline>''
                   @ ''\<newline>''
                   @ enterprises_section (get_or (enterprises_json (data sample_world)) [])
                   @ rest))"
proof -
  let ?s = "main_summary ''2024-01-07T00:00:05'' (Some ''drzo'')
            [org_cogcities, org_regima_uk] ([] :: repository list)
            ([] :: unit list) ([] :: unit list) ([] :: unit list) ([] :: unit list)"
  let ?cs = "[(''organizations'', 2), (''repositories'', 0), (''followers'', 0),
             (''following'', 0), (''starred_repos'', 0), (''gists'', 0 :: int)]"
  have h: "summary_json (data sample_world) = Some ?s"
    by (simp add: sample_world_def sample_summary_def)
  have c: "counts ?s = Some ?cs"
    by (simp add: main_summary_def)
  have e: "enterprises_json (data sample_world) = Some [ent_alpha, ent_beta]"
    by (simp add: sample_world_def)
  note t = enterprises_row_is_summary_count[of sample_world ?s ?cs whole_pct
      "''2024-01-07T00:00:05''" "Some ''drzo''" "[org_cogcities, org_regima_uk]" "[] :: repository list"
      "[] :: unit list" "[] :: unit list" "[] :: unit list" "[] :: unit list"]
  from t[THEN conjunct1, rule_format, OF h c] t[THEN conjunct2, rule_format, OF h] h c e
  show ?thesis by (intro conjI)
qed

end
